theory Spec2Isabelle
  imports Complex_Main "HOL-Library.AList" "HOL-Library.Sublist"
begin

section \<open>ECMAScript numbers\<close>

text \<open>
  The strategies compute with the \<^verbatim>\<open>number\<close> type of the language: IEEE 754 binary64
  with round-to-nearest, ties-to-even. A value is \<open>NaN\<close>, an infinity with its sign
  (\<open>True\<close> is negative), or a sign and a magnitude; the magnitude of a finite value is
  kept as the exact rational it denotes, so \<open>Finite True 0\<close> is the negative zero.
  Every arithmetic operation computes the exact result and rounds it once.
\<close>

datatype number = NaN | Infinity bool | Finite bool rat

fun ilog2 :: "nat \<Rightarrow> nat" where
  "ilog2 n = (if n < 2 then 0 else Suc (ilog2 (n div 2)))"

declare ilog2.simps [simp del]

text \<open>\<open>binade a\<close> is the integer \<open>e\<close> with \<open>2^e \<le> a < 2^(e+1)\<close>, for \<open>0 < a\<close>.\<close>

definition binade :: "rat \<Rightarrow> int" where
  "binade a =
     (if 1 \<le> a then int (ilog2 (nat \<lfloor>a\<rfloor>))
      else - int (if \<lceil>1 / a\<rceil> \<le> 1 then 0 else Suc (ilog2 (nat (\<lceil>1 / a\<rceil> - 1)))))"

definition round_half_even :: "rat \<Rightarrow> int" where
  "round_half_even x =
     (let f = \<lfloor>x\<rfloor>; d = x - of_int f in
      if d < 1 / 2 then f else if 1 / 2 < d then f + 1 else if even f then f else f + 1)"

text \<open>
  Rounding of a magnitude to the 53-bit significand of its binade; below the smallest
  normal number \<open>2^-1022\<close> the spacing stays \<open>2^-1074\<close> (subnormals). The result may
  be \<open>2^1024\<close> or more, which \<open>round64\<close> turns into an infinity.
\<close>

definition round_mag :: "rat \<Rightarrow> rat" where
  "round_mag a =
     (if a = 0 then 0
      else let e = max (binade a) (- 1022); u = 2 powi (e - 52)
           in of_int (round_half_even (a / u)) * u)"

definition round64 :: "bool \<Rightarrow> rat \<Rightarrow> number" where
  "round64 s a = (let r = round_mag a in if 2 ^ 1024 \<le> r then Infinity s else Finite s r)"

text \<open>A non-negative decimal literal of the source text, such as \<^verbatim>\<open>0.001\<close>.\<close>

definition lit :: "rat \<Rightarrow> number" where
  "lit q = round64 False q"

definition val :: "bool \<Rightarrow> rat \<Rightarrow> rat" where
  "val s a = (if s then - a else a)"

fun fneg :: "number \<Rightarrow> number" where
  "fneg NaN = NaN"
| "fneg (Infinity s) = Infinity (\<not> s)"
| "fneg (Finite s a) = Finite (\<not> s) a"

fun fadd :: "number \<Rightarrow> number \<Rightarrow> number" where
  "fadd NaN y = NaN"
| "fadd x NaN = NaN"
| "fadd (Infinity s) (Infinity t) = (if s = t then Infinity s else NaN)"
| "fadd (Infinity s) (Finite t b) = Infinity s"
| "fadd (Finite s a) (Infinity t) = Infinity t"
| "fadd (Finite s a) (Finite t b) =
     (let v = val s a + val t b
      in if v = 0 then Finite (s \<and> t) 0 else round64 (v < 0) \<bar>v\<bar>)"

definition fsub :: "number \<Rightarrow> number \<Rightarrow> number" where
  "fsub x y = fadd x (fneg y)"

fun fmul :: "number \<Rightarrow> number \<Rightarrow> number" where
  "fmul NaN y = NaN"
| "fmul x NaN = NaN"
| "fmul (Infinity s) (Infinity t) = Infinity (s \<noteq> t)"
| "fmul (Infinity s) (Finite t b) = (if b = 0 then NaN else Infinity (s \<noteq> t))"
| "fmul (Finite s a) (Infinity t) = (if a = 0 then NaN else Infinity (s \<noteq> t))"
| "fmul (Finite s a) (Finite t b) = round64 (s \<noteq> t) (a * b)"

fun fdiv :: "number \<Rightarrow> number \<Rightarrow> number" where
  "fdiv NaN y = NaN"
| "fdiv x NaN = NaN"
| "fdiv (Infinity s) (Infinity t) = NaN"
| "fdiv (Infinity s) (Finite t b) = Infinity (s \<noteq> t)"
| "fdiv (Finite s a) (Infinity t) = Finite (s \<noteq> t) 0"
| "fdiv (Finite s a) (Finite t b) =
     (if b = 0 then (if a = 0 then NaN else Infinity (s \<noteq> t))
      else round64 (s \<noteq> t) (a / b))"

text \<open>The comparisons \<^verbatim>\<open><\<close>, \<^verbatim>\<open>>\<close>, \<^verbatim>\<open>>=\<close>, \<^verbatim>\<open><=\<close> and \<^verbatim>\<open>===\<close>; all are false on \<open>NaN\<close>.\<close>

fun flt :: "number \<Rightarrow> number \<Rightarrow> bool" where
  "flt NaN y = False"
| "flt x NaN = False"
| "flt (Infinity s) (Infinity t) = (s \<and> \<not> t)"
| "flt (Infinity s) (Finite t b) = s"
| "flt (Finite s a) (Infinity t) = (\<not> t)"
| "flt (Finite s a) (Finite t b) = (val s a < val t b)"

definition fgt :: "number \<Rightarrow> number \<Rightarrow> bool" where
  "fgt x y = flt y x"

fun feq :: "number \<Rightarrow> number \<Rightarrow> bool" where
  "feq NaN y = False"
| "feq x NaN = False"
| "feq (Infinity s) (Infinity t) = (s = t)"
| "feq (Infinity s) (Finite t b) = False"
| "feq (Finite s a) (Infinity t) = False"
| "feq (Finite s a) (Finite t b) = (val s a = val t b)"

definition fge :: "number \<Rightarrow> number \<Rightarrow> bool" where
  "fge x y = (flt y x \<or> feq x y)"


fun signbit :: "number \<Rightarrow> bool" where
  "signbit NaN = False"
| "signbit (Infinity s) = s"
| "signbit (Finite s a) = s"

text \<open>
  \<^verbatim>\<open>Math.min\<close> and \<^verbatim>\<open>Math.max\<close> of two arguments: \<open>NaN\<close> if either is, and the
  negative zero is below the positive one.
\<close>

definition Math_min :: "number \<Rightarrow> number \<Rightarrow> number" where
  "Math_min x y =
     (if x = NaN \<or> y = NaN then NaN
      else if flt x y then x else if flt y x then y
      else if signbit x then x else y)"

definition Math_max :: "number \<Rightarrow> number \<Rightarrow> number" where
  "Math_max x y =
     (if x = NaN \<or> y = NaN then NaN
      else if flt y x then x else if flt x y then y
      else if signbit x then y else x)"

text \<open>\<open>bounded M x\<close>: \<open>x\<close> is a finite number of magnitude at most \<open>M\<close>.\<close>

fun bounded :: "rat \<Rightarrow> number \<Rightarrow> bool" where
  "bounded M (Finite s a) = (0 \<le> a \<and> a \<le> M)"
| "bounded M x = False"

section \<open>Strings and numbers\<close>

text \<open>
  A string is the list of the bytes of its UTF-8 encoding. \<^verbatim>\<open>parseFloat\<close> skips leading
  white space and line terminators, reads the longest prefix that is a decimal literal
  (an optional sign, then \<^verbatim>\<open>Infinity\<close>, or digits with an optional fraction and an
  optional exponent) and rounds its value; without such a prefix the result is \<open>NaN\<close>.
\<close>

definition is_digit :: "char \<Rightarrow> bool" where
  "is_digit c = (c \<in> set ''0123456789'')"

definition digit_val :: "char \<Rightarrow> nat" where
  "digit_val c = of_char c - 48"

definition digits_val :: "string \<Rightarrow> nat" where
  "digits_val ds = foldl (\<lambda>n c. 10 * n + digit_val c) 0 ds"

definition white_space :: "string list" where
  "white_space =
     [[CHR 0x09], [CHR 0x0A], [CHR 0x0B], [CHR 0x0C], [CHR 0x0D], [CHR 0x20],
      [CHR 0xC2, CHR 0xA0], [CHR 0xE1, CHR 0x9A, CHR 0x80],
      [CHR 0xE2, CHR 0x80, CHR 0x80], [CHR 0xE2, CHR 0x80, CHR 0x81],
      [CHR 0xE2, CHR 0x80, CHR 0x82], [CHR 0xE2, CHR 0x80, CHR 0x83],
      [CHR 0xE2, CHR 0x80, CHR 0x84], [CHR 0xE2, CHR 0x80, CHR 0x85],
      [CHR 0xE2, CHR 0x80, CHR 0x86], [CHR 0xE2, CHR 0x80, CHR 0x87],
      [CHR 0xE2, CHR 0x80, CHR 0x88], [CHR 0xE2, CHR 0x80, CHR 0x89],
      [CHR 0xE2, CHR 0x80, CHR 0x8A], [CHR 0xE2, CHR 0x80, CHR 0xA8],
      [CHR 0xE2, CHR 0x80, CHR 0xA9], [CHR 0xE2, CHR 0x80, CHR 0xAF],
      [CHR 0xE2, CHR 0x81, CHR 0x9F], [CHR 0xE3, CHR 0x80, CHR 0x80],
      [CHR 0xEF, CHR 0xBB, CHR 0xBF]]"

fun TrimStart :: "string \<Rightarrow> string" where
  "TrimStart [] = []"
| "TrimStart (c # cs) =
     (case find (\<lambda>w. prefix w (c # cs)) white_space of
        None \<Rightarrow> c # cs
      | Some w \<Rightarrow> TrimStart (drop (length w - 1) cs))"

text \<open>
  The exponent part after the mantissa: \<^verbatim>\<open>e\<close> or \<^verbatim>\<open>E\<close>, an optional sign and at
  least one digit; anything else is not part of the literal and counts as exponent 0.
\<close>

definition exponent_part :: "string \<Rightarrow> int" where
  "exponent_part r =
     (case r of
        [] \<Rightarrow> 0
      | c # r' \<Rightarrow>
          if c = CHR ''e'' \<or> c = CHR ''E'' then
            (case r' of
               [] \<Rightarrow> 0
             | d # r'' \<Rightarrow>
                 if d = CHR ''-'' then
                   (if takeWhile is_digit r'' = [] then 0
                    else - int (digits_val (takeWhile is_digit r'')))
                 else if d = CHR ''+'' then int (digits_val (takeWhile is_digit r''))
                 else int (digits_val (takeWhile is_digit r')))
          else 0)"

datatype StrDecimalLiteral = StrInfinity bool | StrDecimal bool nat int

text \<open>
  \<open>scan_literal t\<close> reads the longest literal at the start of \<open>t\<close>: \<open>StrDecimal neg m e\<close>
  stands for the value \<open>m * 10^e\<close> with the sign \<open>neg\<close>.
\<close>

definition scan_literal :: "string \<Rightarrow> StrDecimalLiteral option" where
  "scan_literal t =
     (let neg = (take 1 t = ''-'');
          u = (if take 1 t = ''-'' \<or> take 1 t = ''+'' then drop 1 t else t)
      in if prefix ''Infinity'' u then Some (StrInfinity neg)
         else
           let ip = takeWhile is_digit u;
               r1 = dropWhile is_digit u;
               fp = (if take 1 r1 = ''.'' then takeWhile is_digit (drop 1 r1) else []);
               r2 = (if take 1 r1 = ''.'' then dropWhile is_digit (drop 1 r1) else r1)
           in if ip = [] \<and> fp = [] then None
              else Some (StrDecimal neg (digits_val (ip @ fp))
                           (exponent_part r2 - int (length fp))))"

definition parseFloat :: "string \<Rightarrow> number" where
  "parseFloat str =
     (case scan_literal (TrimStart str) of
        None \<Rightarrow> NaN
      | Some (StrInfinity neg) \<Rightarrow> Infinity neg
      | Some (StrDecimal neg m e) \<Rightarrow> round64 neg (of_nat m * 10 powi e))"

text \<open>
  The exact number that a decimal string denotes, which \<open>parseFloat\<close> rounds to a
  double; none for a string that does not start with a decimal literal, or that reads
  \<^verbatim>\<open>Infinity\<close>.
\<close>

definition decimal_value :: "string \<Rightarrow> rat option" where
  "decimal_value str =
     (case scan_literal (TrimStart str) of
        None \<Rightarrow> None
      | Some (StrInfinity neg) \<Rightarrow> None
      | Some (StrDecimal neg m e) \<Rightarrow> Some (val neg (of_nat m * 10 powi e)))"

fun digits10 :: "nat \<Rightarrow> string" where
  "digits10 n =
     (if n < 10 then [''0123456789'' ! n]
      else digits10 (n div 10) @ [''0123456789'' ! (n mod 10)])"

declare digits10.simps [simp del]

text \<open>
  \<^verbatim>\<open>Number.prototype.toFixed\<close> with \<open>f\<close> fraction digits, \<open>f \<le> 100\<close>. A finite value
  below \<open>10^21\<close> in magnitude is scaled by \<open>10^f\<close> and rounded to the nearest integer,
  the larger one on a tie; \<open>NaN\<close> and the infinities print as their names. From
  \<open>10^21\<close> on the result is the shortest-digits exponent notation of the number, which the
  language leaves to the implementation where several digit strings qualify: it is the
  parameter \<open>ts\<close> here.
\<close>

definition toFixed :: "(rat \<Rightarrow> string) \<Rightarrow> nat \<Rightarrow> number \<Rightarrow> string" where
  "toFixed ts f x =
     (case x of
        NaN \<Rightarrow> ''NaN''
      | Infinity s \<Rightarrow> (if s then ''-Infinity'' else ''Infinity'')
      | Finite s a \<Rightarrow>
          (if s \<and> 0 < a then ''-'' else '''') @
          (if 10 ^ 21 \<le> a then ts a
           else
             let m = digits10 (nat \<lfloor>a * 10 ^ f + 1 / 2\<rfloor>);
                 m' = replicate (f + 1 - length m) CHR ''0'' @ m
             in if f = 0 then m
                else take (length m' - f) m' @ ''.'' @ drop (length m' - f) m'))"

section \<open>Shared types\<close>

record OrderBookEntry =
  price :: string
  entry_size :: string

record OrderBook =
  ob_market :: string
  ob_asset_id :: string
  bids :: "OrderBookEntry list"
  asks :: "OrderBookEntry list"
  timestamp :: string

datatype Action = BUY | SELL

datatype Side = YES | NO

datatype OrderStatus = LIVE | MATCHED | CANCELLED

record Order =
  order_id :: string
  order_market :: string
  order_asset_id :: string
  order_side :: Action
  order_price :: string
  order_size :: string
  status :: OrderStatus
  created_at :: string

record TradeSignal =
  sig_market :: string
  sig_asset_id :: string
  action :: Action
  side :: Side
  sig_price :: string
  sig_size :: string
  reason :: string


record MarketMakerConfig =
  spread :: number
  orderSize :: string
  maxPosition :: string
  minLiquidity :: string
  refreshInterval :: number


section \<open>Streaming client\<close>

text \<open>
  The client is a state machine driven by calls of its methods and by the events of the
  sockets it creates. A socket is named by its index in \<open>sockets\<close>, the list of the ready
  states of every socket created so far; \<open>ws\<close> is the socket the client currently holds.
  Callbacks are named, not run: every invocation of a handler is appended to \<open>calls\<close>,
  every frame sent to \<open>sent\<close>, and \<open>reconnectTimers\<close> counts the reconnect timers
  that are scheduled and have not fired. \<open>url_accepted\<close> says whether the socket
  constructor accepts the configured URL or throws. A Map is an association list in
  insertion order.
\<close>

datatype ReadyState = CONNECTING | OPEN | CLOSING | CLOSED

datatype Channel = book | price_channel | user

datatype Frame = subscribe Channel "string list" | unsubscribe_frame "string list"

datatype OrderBookCallback = MarketMakerUpdate string | BookListener nat

datatype PriceCallback = ArbitrageUpdate | PriceListener nat

datatype Invocation =
  OrderBookCall OrderBookCallback OrderBook
| PriceCall PriceCallback string string
| ErrorCall nat string

datatype Promise = Resolved | Rejected | Pending nat

record WebSocketConfig =
  url :: string
  reconnectInterval :: number
  maxReconnectAttempts :: number

record WebSocketOptions =
  opt_url :: "string option"
  opt_reconnectInterval :: "number option"
  opt_maxReconnectAttempts :: "number option"

record PolymarketWebSocket =
  ws :: "nat option"
  ws_config :: WebSocketConfig
  reconnectAttempts :: number
  isConnecting :: bool
  shouldReconnect :: bool
  orderBookCallbacks :: "(string \<times> OrderBookCallback list) list"
  priceCallbacks :: "(string \<times> PriceCallback list) list"
  onError :: "nat option"
  sockets :: "ReadyState list"
  sent :: "(nat \<times> Frame) list"
  reconnectTimers :: nat
  calls :: "Invocation list"
  url_accepted :: bool

record MessageData =
  data_bids :: "OrderBookEntry list option"
  data_asks :: "OrderBookEntry list option"
  data_timestamp :: "string option"
  data_price :: string

record Message =
  msg_type :: string
  msg_asset_id :: string
  msg_market :: "string option"
  msg_data :: "MessageData option"

definition DEFAULT_WS_URL :: string where
  "DEFAULT_WS_URL = ''wss://ws-subscriptions-clob.polymarket.com/ws/market''"

text \<open>\<^verbatim>\<open>x || d\<close> on an optional number: the default replaces a missing value, a zero and \<open>NaN\<close>.\<close>

definition number_or :: "number option \<Rightarrow> number \<Rightarrow> number" where
  "number_or x d =
     (case x of None \<Rightarrow> d | Some v \<Rightarrow> if v = NaN \<or> feq v (lit 0) then d else v)"

definition string_or :: "string option \<Rightarrow> string \<Rightarrow> string" where
  "string_or x d = (case x of None \<Rightarrow> d | Some v \<Rightarrow> if v = [] then d else v)"

definition new_PolymarketWebSocket :: "WebSocketOptions \<Rightarrow> bool \<Rightarrow> PolymarketWebSocket" where
  "new_PolymarketWebSocket config accepted =
     \<lparr>ws = None,
      ws_config =
        \<lparr>url = string_or (opt_url config) DEFAULT_WS_URL,
         reconnectInterval = number_or (opt_reconnectInterval config) (lit 5000),
         maxReconnectAttempts = number_or (opt_maxReconnectAttempts config) (lit 10)\<rparr>,
      reconnectAttempts = lit 0, isConnecting = False, shouldReconnect = True,
      orderBookCallbacks = [], priceCallbacks = [], onError = None,
      sockets = [], sent = [], reconnectTimers = 0, calls = [], url_accepted = accepted\<rparr>"

text \<open>The shared instance that \<^verbatim>\<open>getWebSocket\<close> creates on its first call.\<close>

definition getWebSocket :: "bool \<Rightarrow> PolymarketWebSocket" where
  "getWebSocket accepted =
     new_PolymarketWebSocket
       \<lparr>opt_url = None, opt_reconnectInterval = None, opt_maxReconnectAttempts = None\<rparr>
       accepted"

definition isConnected :: "PolymarketWebSocket \<Rightarrow> bool" where
  "isConnected s =
     (case ws s of None \<Rightarrow> False | Some h \<Rightarrow> h < length (sockets s) \<and> sockets s ! h = OPEN)"

definition connect :: "PolymarketWebSocket \<Rightarrow> Promise \<times> PolymarketWebSocket" where
  "connect s =
     (if isConnected s then (Resolved, s)
      else if isConnecting s then (Resolved, s)
      else
        let s1 = s\<lparr>isConnecting := True, shouldReconnect := True\<rparr>
        in if url_accepted s1
           then (Pending (length (sockets s1)),
                 s1\<lparr>ws := Some (length (sockets s1)), sockets := sockets s1 @ [CONNECTING]\<rparr>)
           else (Rejected, s1\<lparr>isConnecting := False\<rparr>))"

definition close_socket :: "ReadyState \<Rightarrow> ReadyState" where
  "close_socket r = (if r = CLOSED then CLOSED else CLOSING)"

definition disconnect :: "PolymarketWebSocket \<Rightarrow> PolymarketWebSocket" where
  "disconnect s =
     (let s1 = s\<lparr>shouldReconnect := False\<rparr>
      in case ws s1 of
           None \<Rightarrow> s1
         | Some h \<Rightarrow> s1\<lparr>sockets := (sockets s1)[h := close_socket (sockets s1 ! h)], ws := None\<rparr>)"

definition send :: "Frame \<Rightarrow> PolymarketWebSocket \<Rightarrow> PolymarketWebSocket" where
  "send f s = (case ws s of None \<Rightarrow> s | Some h \<Rightarrow> s\<lparr>sent := sent s @ [(h, f)]\<rparr>)"

definition sendSubscription ::
  "string list \<Rightarrow> Channel \<Rightarrow> PolymarketWebSocket \<Rightarrow> PolymarketWebSocket" where
  "sendSubscription assetIds type s =
     (if \<not> isConnected s then s else send (subscribe type assetIds) s)"

text \<open>\<^verbatim>\<open>map.get(key) || []\<close>: the handlers registered for a key, none if it is absent.\<close>

definition get_or_empty :: "(string \<times> 'a list) list \<Rightarrow> string \<Rightarrow> 'a list" where
  "get_or_empty m k = (case map_of m k of None \<Rightarrow> [] | Some cbs \<Rightarrow> cbs)"

definition subscribeOrderBook ::
  "string list \<Rightarrow> OrderBookCallback \<Rightarrow> PolymarketWebSocket \<Rightarrow> PolymarketWebSocket" where
  "subscribeOrderBook assetIds callback s =
     (let s1 = fold (\<lambda>assetId s'.
                  s'\<lparr>orderBookCallbacks :=
                       AList.update assetId
                         (get_or_empty (orderBookCallbacks s') assetId @ [callback])
                         (orderBookCallbacks s')\<rparr>) assetIds s
      in if isConnected s1 then sendSubscription assetIds book s1 else s1)"

definition subscribePrice ::
  "string list \<Rightarrow> PriceCallback \<Rightarrow> PolymarketWebSocket \<Rightarrow> PolymarketWebSocket" where
  "subscribePrice assetIds callback s =
     (let s1 = fold (\<lambda>assetId s'.
                  s'\<lparr>priceCallbacks :=
                       AList.update assetId
                         (get_or_empty (priceCallbacks s') assetId @ [callback])
                         (priceCallbacks s')\<rparr>) assetIds s
      in if isConnected s1 then sendSubscription assetIds price_channel s1 else s1)"

definition unsubscribe :: "string list \<Rightarrow> PolymarketWebSocket \<Rightarrow> PolymarketWebSocket" where
  "unsubscribe assetIds s =
     (let s1 = fold (\<lambda>assetId s'.
                  s'\<lparr>orderBookCallbacks := AList.delete assetId (orderBookCallbacks s'),
                      priceCallbacks := AList.delete assetId (priceCallbacks s')\<rparr>) assetIds s
      in if isConnected s1 then send (unsubscribe_frame assetIds) s1 else s1)"

definition setErrorHandler :: "nat \<Rightarrow> PolymarketWebSocket \<Rightarrow> PolymarketWebSocket" where
  "setErrorHandler callback s = s\<lparr>onError := Some callback\<rparr>"

text \<open>
  An inbound frame after \<^verbatim>\<open>JSON.parse\<close>: \<open>None\<close> when parsing throws, which is caught
  and logged. \<open>now\<close> is the time stamp the client makes up for a book without one.
\<close>

definition parseOrderBook :: "string \<Rightarrow> Message \<Rightarrow> MessageData \<Rightarrow> OrderBook" where
  "parseOrderBook now message data =
     \<lparr>ob_market = string_or (msg_market message) [],
      ob_asset_id = msg_asset_id message,
      bids = (case data_bids data of None \<Rightarrow> [] | Some b \<Rightarrow> b),
      asks = (case data_asks data of None \<Rightarrow> [] | Some a \<Rightarrow> a),
      timestamp = string_or (data_timestamp data) now\<rparr>"

definition handleMessage ::
  "string \<Rightarrow> Message option \<Rightarrow> PolymarketWebSocket \<Rightarrow> PolymarketWebSocket" where
  "handleMessage now parsed s =
     (case parsed of
        None \<Rightarrow> s
      | Some message \<Rightarrow>
          let s1 = (case msg_data message of
                      None \<Rightarrow> s
                    | Some data \<Rightarrow>
                        if msg_type message = ''book''
                        then s\<lparr>calls := calls s @
                                 map (\<lambda>callback. OrderBookCall callback (parseOrderBook now message data))
                                   (get_or_empty (orderBookCallbacks s) (msg_asset_id message))\<rparr>
                        else s)
          in case msg_data message of
               None \<Rightarrow> s1
             | Some data \<Rightarrow>
                 if msg_type message = ''price_change''
                 then s1\<lparr>calls := calls s1 @
                           map (\<lambda>callback. PriceCall callback (msg_asset_id message) (data_price data))
                             (get_or_empty (priceCallbacks s1) (msg_asset_id message))\<rparr>
                 else s1)"

definition resubscribeAll :: "PolymarketWebSocket \<Rightarrow> PolymarketWebSocket" where
  "resubscribeAll s =
     (let bookAssets = map fst (orderBookCallbacks s);
          priceAssets = map fst (priceCallbacks s);
          s1 = (if length bookAssets > 0 then sendSubscription bookAssets book s else s)
      in if length priceAssets > 0 then sendSubscription priceAssets price_channel s1 else s1)"

definition attemptReconnect :: "PolymarketWebSocket \<Rightarrow> PolymarketWebSocket" where
  "attemptReconnect s =
     (if \<not> shouldReconnect s then s
      else if fge (reconnectAttempts s) (maxReconnectAttempts (ws_config s)) then
        (case onError s of
           None \<Rightarrow> s
         | Some callback \<Rightarrow>
             s\<lparr>calls := calls s @ [ErrorCall callback ''Max reconnection attempts reached'']\<rparr>)
      else s\<lparr>reconnectAttempts := fadd (reconnectAttempts s) (lit 1),
             reconnectTimers := Suc (reconnectTimers s)\<rparr>)"

text \<open>The four handlers that \<^verbatim>\<open>connect\<close> installs on every socket it creates.\<close>

definition onopen :: "PolymarketWebSocket \<Rightarrow> PolymarketWebSocket" where
  "onopen s = resubscribeAll (s\<lparr>isConnecting := False, reconnectAttempts := lit 0\<rparr>)"

definition onmessage ::
  "string \<Rightarrow> Message option \<Rightarrow> PolymarketWebSocket \<Rightarrow> PolymarketWebSocket" where
  "onmessage now parsed s = handleMessage now parsed s"

definition onerror :: "PolymarketWebSocket \<Rightarrow> PolymarketWebSocket" where
  "onerror s =
     (let s1 = s\<lparr>isConnecting := False\<rparr>
      in case onError s1 of
           None \<Rightarrow> s1
         | Some callback \<Rightarrow> s1\<lparr>calls := calls s1 @ [ErrorCall callback ''WebSocket error'']\<rparr>)"

definition onclose :: "PolymarketWebSocket \<Rightarrow> PolymarketWebSocket" where
  "onclose s = attemptReconnect (s\<lparr>isConnecting := False\<rparr>)"

text \<open>
  What can happen to a client: a socket event, which the host delivers only in a ready
  state that allows it and after it has updated the ready state; a reconnect timer that
  fires and calls \<^verbatim>\<open>connect\<close>; or a call of a public method.
\<close>

datatype Event =
  SocketOpen nat
| SocketMessage nat string "Message option"
| SocketError nat
| SocketClose nat
| TimerFired
| Connect
| Disconnect
| SubscribeOrderBook "string list" OrderBookCallback
| SubscribePrice "string list" PriceCallback
| Unsubscribe "string list"
| SetErrorHandler nat

fun enabled :: "Event \<Rightarrow> PolymarketWebSocket \<Rightarrow> bool" where
  "enabled (SocketOpen h) s = (h < length (sockets s) \<and> sockets s ! h = CONNECTING)"
| "enabled (SocketMessage h now parsed) s = (h < length (sockets s) \<and> sockets s ! h = OPEN)"
| "enabled (SocketError h) s = (h < length (sockets s) \<and> sockets s ! h \<noteq> CLOSED)"
| "enabled (SocketClose h) s = (h < length (sockets s) \<and> sockets s ! h \<noteq> CLOSED)"
| "enabled TimerFired s = (0 < reconnectTimers s)"
| "enabled e s = True"

fun fire :: "Event \<Rightarrow> PolymarketWebSocket \<Rightarrow> PolymarketWebSocket" where
  "fire (SocketOpen h) s = onopen (s\<lparr>sockets := (sockets s)[h := OPEN]\<rparr>)"
| "fire (SocketMessage h now parsed) s = onmessage now parsed s"
| "fire (SocketError h) s = onerror s"
| "fire (SocketClose h) s = onclose (s\<lparr>sockets := (sockets s)[h := CLOSED]\<rparr>)"
| "fire TimerFired s = snd (connect (s\<lparr>reconnectTimers := reconnectTimers s - 1\<rparr>))"
| "fire Connect s = snd (connect s)"
| "fire Disconnect s = disconnect s"
| "fire (SubscribeOrderBook assetIds callback) s = subscribeOrderBook assetIds callback s"
| "fire (SubscribePrice assetIds callback) s = subscribePrice assetIds callback s"
| "fire (Unsubscribe assetIds) s = unsubscribe assetIds s"
| "fire (SetErrorHandler callback) s = setErrorHandler callback s"

definition step :: "Event \<Rightarrow> PolymarketWebSocket \<Rightarrow> PolymarketWebSocket" where
  "step e s = (if enabled e s then fire e s else s)"

definition run :: "Event list \<Rightarrow> PolymarketWebSocket \<Rightarrow> PolymarketWebSocket" where
  "run es s = fold step es s"

section \<open>Market maker\<close>

definition MarketMaker_DEFAULT_CONFIG :: MarketMakerConfig where
  "MarketMaker_DEFAULT_CONFIG =
     \<lparr>spread = lit (2 / 100), orderSize = ''10'', maxPosition = ''100'',
      minLiquidity = ''1000'', refreshInterval = lit 30000\<rparr>"

record MarketMakerOptions =
  opt_spread :: "number option"
  opt_orderSize :: "string option"
  opt_maxPosition :: "string option"
  opt_minLiquidity :: "string option"
  opt_refreshInterval :: "number option"

record MarketMakerState =
  assetId :: string
  marketId :: string
  currentBid :: "Order option"
  currentAsk :: "Order option"
  position :: number
  isRunning :: bool

text \<open>
  The engine with the client it shares. \<open>intervals\<close> is the host's table of running
  interval timers, each with the asset it refreshes, and \<open>interval_count\<close> the number of
  timers created so far; a timer handle is never zero.
\<close>

record MarketMaker =
  config :: MarketMakerConfig
  states :: "(string \<times> MarketMakerState) list"
  mm_ws :: PolymarketWebSocket
  refreshTimers :: "(string \<times> nat) list"
  intervals :: "(nat \<times> string) list"
  interval_count :: nat

definition override :: "'a option \<Rightarrow> 'a \<Rightarrow> 'a" where
  "override x d = (case x of None \<Rightarrow> d | Some v \<Rightarrow> v)"

definition new_MarketMaker :: "MarketMakerOptions \<Rightarrow> PolymarketWebSocket \<Rightarrow> MarketMaker" where
  "new_MarketMaker options w =
     \<lparr>config =
        \<lparr>spread = override (opt_spread options) (spread MarketMaker_DEFAULT_CONFIG),
         orderSize = override (opt_orderSize options) (orderSize MarketMaker_DEFAULT_CONFIG),
         maxPosition = override (opt_maxPosition options) (maxPosition MarketMaker_DEFAULT_CONFIG),
         minLiquidity = override (opt_minLiquidity options) (minLiquidity MarketMaker_DEFAULT_CONFIG),
         refreshInterval =
           override (opt_refreshInterval options) (refreshInterval MarketMaker_DEFAULT_CONFIG)\<rparr>,
      states = [], mm_ws = w, refreshTimers = [], intervals = [], interval_count = 0\<rparr>"

datatype StartError = CredentialsRequired | ConnectFailed

text \<open>
  How a call of an asynchronous method ends its first stretch: it has thrown (the
  promise is rejected), it has returned, or it waits at an \<^verbatim>\<open>await\<close>; each with the
  state it leaves.
\<close>

datatype 'a Outcome = Threw StartError 'a | Returned 'a | Awaiting 'a

fun outcome_state :: "'a Outcome \<Rightarrow> 'a" where
  "outcome_state (Threw e s) = s"
| "outcome_state (Returned s) = s"
| "outcome_state (Awaiting s) = s"

text \<open>The rest of \<^verbatim>\<open>start\<close>, after the connection: the subscription and the timer.\<close>

definition start_resume :: "string \<Rightarrow> MarketMaker \<Rightarrow> MarketMaker" where
  "start_resume a mm =
     (let timer = Suc (interval_count mm)
      in mm\<lparr>mm_ws := subscribeOrderBook [a] (MarketMakerUpdate a) (mm_ws mm),
             intervals := intervals mm @ [(timer, a)],
             interval_count := timer,
             refreshTimers := AList.update a timer (refreshTimers mm)\<rparr>)"

text \<open>\<open>hasCredentials\<close> is the result of the capability check of the client module.\<close>

definition start :: "bool \<Rightarrow> string \<Rightarrow> string \<Rightarrow> MarketMaker \<Rightarrow> MarketMaker Outcome" where
  "start hasCredentials a m mm =
     (if \<not> hasCredentials then Threw CredentialsRequired mm
      else if map_of (states mm) a \<noteq> None then Returned mm
      else
        let state = \<lparr>assetId = a, marketId = m, currentBid = None, currentAsk = None,
                     position = lit 0, isRunning = True\<rparr>;
            mm1 = mm\<lparr>states := AList.update a state (states mm)\<rparr>
        in if \<not> isConnected (mm_ws mm1) then
             (case connect (mm_ws mm1) of
                (Rejected, w) \<Rightarrow> Threw ConnectFailed (mm1\<lparr>mm_ws := w\<rparr>)
              | (Resolved, w) \<Rightarrow> Awaiting (mm1\<lparr>mm_ws := w\<rparr>)
              | (Pending h, w) \<Rightarrow> Awaiting (mm1\<lparr>mm_ws := w\<rparr>))
           else Returned (start_resume a mm1))"

definition cancelOrders :: "string \<Rightarrow> MarketMaker \<Rightarrow> MarketMaker" where
  "cancelOrders a mm =
     (case map_of (states mm) a of
        None \<Rightarrow> mm
      | Some state \<Rightarrow>
          let state1 = (if currentBid state \<noteq> None then state\<lparr>currentBid := None\<rparr> else state);
              state2 = (if currentAsk state1 \<noteq> None then state1\<lparr>currentAsk := None\<rparr> else state1)
          in mm\<lparr>states := AList.update a state2 (states mm)\<rparr>)"

text \<open>
  \<^verbatim>\<open>stop\<close> up to its \<^verbatim>\<open>await\<close>, and the rest of it; \<open>stop\<close> is the two without
  anything in between.
\<close>

definition stop_begin :: "string \<Rightarrow> MarketMaker \<Rightarrow> MarketMaker" where
  "stop_begin a mm =
     (case map_of (states mm) a of
        None \<Rightarrow> mm
      | Some state \<Rightarrow>
          let mm1 = mm\<lparr>states := AList.update a (state\<lparr>isRunning := False\<rparr>) (states mm)\<rparr>;
              mm2 = (case map_of (refreshTimers mm1) a of
                       None \<Rightarrow> mm1
                     | Some timer \<Rightarrow>
                         mm1\<lparr>intervals := filter (\<lambda>(h, x). h \<noteq> timer) (intervals mm1),
                             refreshTimers := AList.delete a (refreshTimers mm1)\<rparr>)
          in cancelOrders a mm2)"

definition stop_finish :: "string \<Rightarrow> MarketMaker \<Rightarrow> MarketMaker" where
  "stop_finish a mm =
     mm\<lparr>mm_ws := unsubscribe [a] (mm_ws mm), states := AList.delete a (states mm)\<rparr>"

definition stop :: "string \<Rightarrow> MarketMaker \<Rightarrow> MarketMaker" where
  "stop a mm =
     (case map_of (states mm) a of None \<Rightarrow> mm | Some state \<Rightarrow> stop_finish a (stop_begin a mm))"

definition stopAll :: "MarketMaker \<Rightarrow> MarketMaker" where
  "stopAll mm =
     (let assetIds = map fst (states mm)
      in fold stop_finish assetIds (fold stop_begin assetIds mm))"

definition getState :: "string \<Rightarrow> MarketMaker \<Rightarrow> MarketMakerState option" where
  "getState a mm = map_of (states mm) a"

record Quotes =
  bid :: string
  ask :: string

definition calculateQuotes ::
  "(rat \<Rightarrow> string) \<Rightarrow> MarketMakerConfig \<Rightarrow> OrderBook \<Rightarrow> Quotes option" where
  "calculateQuotes ts cfg orderBook =
     (if length (bids orderBook) = 0 \<or> length (asks orderBook) = 0 then None
      else
        let bestBid = parseFloat (price (bids orderBook ! 0));
            bestAsk = parseFloat (price (asks orderBook ! 0));
            midPrice = fdiv (fadd bestBid bestAsk) (lit 2);
            halfSpread = fdiv (spread cfg) (lit 2);
            ourBid = fmul midPrice (fsub (lit 1) halfSpread);
            ourAsk = fmul midPrice (fadd (lit 1) halfSpread);
            finalBid = Math_min ourBid (fsub bestBid (lit (1 / 1000)));
            finalAsk = Math_max ourAsk (fadd bestAsk (lit (1 / 1000)))
        in Some \<lparr>bid = toFixed ts 4 finalBid, ask = toFixed ts 4 finalAsk\<rparr>)"

definition generateSignals ::
  "(rat \<Rightarrow> string) \<Rightarrow> MarketMaker \<Rightarrow> string \<Rightarrow> OrderBook \<Rightarrow> TradeSignal list" where
  "generateSignals ts mm a orderBook =
     (case map_of (states mm) a of
        None \<Rightarrow> []
      | Some state \<Rightarrow>
          if \<not> isRunning state then []
          else
            (case calculateQuotes ts (config mm) orderBook of
               None \<Rightarrow> []
             | Some quotes \<Rightarrow>
                 let maxPos = parseFloat (maxPosition (config mm))
                 in (if flt (position state) maxPos
                     then [\<lparr>sig_market = marketId state, sig_asset_id = a, action = BUY,
                            side = YES, sig_price = bid quotes, sig_size = orderSize (config mm),
                            reason = ''Market making - providing bid liquidity''\<rparr>]
                     else []) @
                    (if fgt (position state) (fneg maxPos)
                     then [\<lparr>sig_market = marketId state, sig_asset_id = a, action = SELL,
                            side = YES, sig_price = ask quotes, sig_size = orderSize (config mm),
                            reason = ''Market making - providing ask liquidity''\<rparr>]
                     else [])))"

text \<open>The signals that an order-book update logs.\<close>

definition handleOrderBookUpdate ::
  "(rat \<Rightarrow> string) \<Rightarrow> string \<Rightarrow> OrderBook \<Rightarrow> MarketMaker \<Rightarrow> TradeSignal list" where
  "handleOrderBookUpdate ts a orderBook mm =
     (case map_of (states mm) a of
        None \<Rightarrow> []
      | Some state \<Rightarrow> if \<not> isRunning state then [] else generateSignals ts mm a orderBook)"

definition refreshOrders :: "string \<Rightarrow> MarketMaker \<Rightarrow> MarketMaker" where
  "refreshOrders a mm =
     (case map_of (states mm) a of
        None \<Rightarrow> mm
      | Some state \<Rightarrow> if \<not> isRunning state then mm else cancelOrders a mm)"

text \<open>
  Everything that can act on the engine: the calls of its methods, each stretch of an
  asynchronous method on its own, an interval timer that fires, and what happens to the
  shared client.
\<close>

datatype Op =
  Start bool string string
| StartResume string
| StopBegin string
| StopFinish string
| Stop string
| StopAll
| IntervalFired nat
| Client Event

fun apply_op :: "Op \<Rightarrow> MarketMaker \<Rightarrow> MarketMaker" where
  "apply_op (Start c a m) mm = outcome_state (start c a m mm)"
| "apply_op (StartResume a) mm = start_resume a mm"
| "apply_op (StopBegin a) mm = stop_begin a mm"
| "apply_op (StopFinish a) mm = stop_finish a mm"
| "apply_op (Stop a) mm = stop a mm"
| "apply_op StopAll mm = stopAll mm"
| "apply_op (IntervalFired h) mm =
     (case map_of (intervals mm) h of None \<Rightarrow> mm | Some a \<Rightarrow> refreshOrders a mm)"
| "apply_op (Client e) mm = mm\<lparr>mm_ws := step e (mm_ws mm)\<rparr>"

definition run_ops :: "Op list \<Rightarrow> MarketMaker \<Rightarrow> MarketMaker" where
  "run_ops ops mm = fold apply_op ops mm"

section \<open>Arbitrage detector\<close>




section \<open>Evaluating numbers\<close>

lemma floor_rat_numeral: "\<lfloor>numeral a / numeral b :: rat\<rfloor> = numeral a div numeral b"
  by (metis floor_divide_of_int_eq of_int_numeral)

lemma floor_rat_one: "\<lfloor>1 / numeral b :: rat\<rfloor> = 1 div numeral b"
  by (metis floor_divide_of_int_eq of_int_numeral of_int_1)

lemma ceiling_rat_numeral: "\<lceil>numeral a / numeral b :: rat\<rceil> = - (- numeral a div numeral b)"
  using ceiling_divide_eq_div[of "numeral a" "numeral b"] by simp

lemma ceiling_rat_one: "\<lceil>1 / numeral b :: rat\<rceil> = - (- 1 div numeral b)"
  using ceiling_divide_eq_div[of "1" "numeral b"] by simp

lemmas round_eval =
  floor_rat_numeral floor_rat_one ceiling_rat_numeral ceiling_rat_one
  round64_def round_mag_def binade_def ilog2.simps round_half_even_def Let_def
  power_int_def power_one_over val_def

lemmas scan_eval =
  parseFloat_def white_space_def scan_literal_def is_digit_def digits_val_def digit_val_def
  exponent_part_def

lemma lit_0 [simp]: "lit 0 = Finite False 0"
  by (simp add: lit_def round64_def round_mag_def)

lemma lit_1 [simp]: "lit 1 = Finite False 1"
  by (simp add: lit_def round_eval)

lemma lit_2 [simp]: "lit 2 = Finite False 2"
  by (simp add: lit_def round_eval)

lemma quotes_040_044:
  "calculateQuotes ts (cfg\<lparr>spread := lit (2 / 100)\<rparr>)
     \<lparr>ob_market = m, ob_asset_id = a,
      bids = [\<lparr>price = ''0.40'', entry_size = z\<rparr>],
      asks = [\<lparr>price = ''0.44'', entry_size = z'\<rparr>], timestamp = t\<rparr> =
     Some \<lparr>bid = ''0.3990'', ask = ''0.4410''\<rparr>"
  by (simp add: calculateQuotes_def scan_eval round_eval lit_def fsub_def Math_min_def
      Math_max_def toFixed_def digits10.simps)

text \<open>
  C2. \<open>calculateQuotes\<close> returns none exactly when the bid side or the ask side of the
  book is empty. Otherwise, with the best bid and the best ask the first entries of the
  two sides and \<open>mid\<close> their mean, the bid is the lesser of \<open>mid * (1 - spread / 2)\<close> and
  the best bid less 0.001, the ask the greater of \<open>mid * (1 + spread / 2)\<close> and the best
  ask plus 0.001, both printed by \<^verbatim>\<open>toFixed(4)\<close>. With the spread 0.02, bids at 0.40 and
  asks at 0.44 the quotes are 0.3990 and 0.4410.
\<close>

theorem calculateQuotes_spec:
  "(calculateQuotes ts cfg orderBook = None \<longleftrightarrow> bids orderBook = [] \<or> asks orderBook = []) \<and>
   (bids orderBook \<noteq> [] \<and> asks orderBook \<noteq> [] \<longrightarrow>
      (let bestBid = parseFloat (price (hd (bids orderBook)));
           bestAsk = parseFloat (price (hd (asks orderBook)));
           mid = fdiv (fadd bestBid bestAsk) (lit 2)
       in calculateQuotes ts cfg orderBook =
            Some \<lparr>bid = toFixed ts 4
                          (Math_min (fmul mid (fsub (lit 1) (fdiv (spread cfg) (lit 2))))
                                    (fsub bestBid (lit (1 / 1000)))),
                  ask = toFixed ts 4
                          (Math_max (fmul mid (fadd (lit 1) (fdiv (spread cfg) (lit 2))))
                                    (fadd bestAsk (lit (1 / 1000))))\<rparr>)) \<and>
   calculateQuotes ts (cfg\<lparr>spread := lit (2 / 100)\<rparr>)
     \<lparr>ob_market = m, ob_asset_id = a,
      bids = [\<lparr>price = ''0.40'', entry_size = z\<rparr>],
      asks = [\<lparr>price = ''0.44'', entry_size = z'\<rparr>], timestamp = t\<rparr> =
     Some \<lparr>bid = ''0.3990'', ask = ''0.4410''\<rparr>"
proof (intro conjI impI)
  show "calculateQuotes ts cfg orderBook = None \<longleftrightarrow> bids orderBook = [] \<or> asks orderBook = []"
    by (simp add: calculateQuotes_def Let_def)
next
  assume "bids orderBook \<noteq> [] \<and> asks orderBook \<noteq> []"
  then show "let bestBid = parseFloat (price (hd (bids orderBook)));
           bestAsk = parseFloat (price (hd (asks orderBook)));
           mid = fdiv (fadd bestBid bestAsk) (lit 2)
       in calculateQuotes ts cfg orderBook =
            Some \<lparr>bid = toFixed ts 4
                          (Math_min (fmul mid (fsub (lit 1) (fdiv (spread cfg) (lit 2))))
                                    (fsub bestBid (lit (1 / 1000)))),
                  ask = toFixed ts 4
                          (Math_max (fmul mid (fadd (lit 1) (fdiv (spread cfg) (lit 2))))
                                    (fadd bestAsk (lit (1 / 1000))))\<rparr>"
    by (simp add: calculateQuotes_def Let_def hd_conv_nth)
next
  show "calculateQuotes ts (cfg\<lparr>spread := lit (2 / 100)\<rparr>)
     \<lparr>ob_market = m, ob_asset_id = a,
      bids = [\<lparr>price = ''0.40'', entry_size = z\<rparr>],
      asks = [\<lparr>price = ''0.44'', entry_size = z'\<rparr>], timestamp = t\<rparr> =
     Some \<lparr>bid = ''0.3990'', ask = ''0.4410''\<rparr>"
    by (rule quotes_040_044)
qed

text \<open>The book of the scenario has two non-empty sides, and the default spread is 0.02.\<close>

theorem calculateQuotes_spec_witness:
  "bids \<lparr>ob_market = ''m'', ob_asset_id = ''a'',
         bids = [\<lparr>price = ''0.40'', entry_size = ''25''\<rparr>],
         asks = [\<lparr>price = ''0.44'', entry_size = ''30''\<rparr>], timestamp = ''t''\<rparr> \<noteq> [] \<and>
   asks \<lparr>ob_market = ''m'', ob_asset_id = ''a'',
         bids = [\<lparr>price = ''0.40'', entry_size = ''25''\<rparr>],
         asks = [\<lparr>price = ''0.44'', entry_size = ''30''\<rparr>], timestamp = ''t''\<rparr> \<noteq> [] \<and>
   calculateQuotes (\<lambda>a. []) MarketMaker_DEFAULT_CONFIG
     \<lparr>ob_market = ''m'', ob_asset_id = ''a'',
      bids = [\<lparr>price = ''0.40'', entry_size = ''25''\<rparr>],
      asks = [\<lparr>price = ''0.44'', entry_size = ''30''\<rparr>], timestamp = ''t''\<rparr> =
     Some \<lparr>bid = ''0.3990'', ask = ''0.4410''\<rparr>"
  using calculateQuotes_spec [of "\<lambda>a. []" MarketMaker_DEFAULT_CONFIG
      "\<lparr>ob_market = ''m'', ob_asset_id = ''a'',
        bids = [\<lparr>price = ''0.40'', entry_size = ''25''\<rparr>],
        asks = [\<lparr>price = ''0.44'', entry_size = ''30''\<rparr>], timestamp = ''t''\<rparr>"
      "''m''" "''a''" "''25''" "''30''" "''t''"]
  by (simp add: MarketMaker_DEFAULT_CONFIG_def)


section \<open>Arbitrage\<close>







section \<open>Quotes and signals\<close>

lemma parseFloat_abc: "parseFloat ''abc'' = NaN"
  by (simp add: scan_eval)

lemma parseFloat_xyz: "parseFloat ''xyz'' = NaN"
  by (simp add: scan_eval)

lemma Math_min_NaN [simp]: "Math_min NaN y = NaN" "Math_min x NaN = NaN"
  by (simp_all add: Math_min_def)

lemma Math_max_NaN [simp]: "Math_max NaN y = NaN" "Math_max x NaN = NaN"
  by (simp_all add: Math_max_def)

lemma fsub_NaN [simp]: "fsub NaN y = NaN"
  by (simp add: fsub_def)

text \<open>
  C10. \<open>calculateQuotes\<close> returns none only for an empty side and never looks at what
  the price strings hold: for the book with the best bid \<^verbatim>\<open>abc\<close> and the best ask
  \<^verbatim>\<open>xyz\<close> it returns quotes, and both are what \<^verbatim>\<open>toFixed(4)\<close> prints for \<open>NaN\<close>.
\<close>

theorem calculateQuotes_unvalidated:
  "(calculateQuotes ts cfg orderBook = None \<longleftrightarrow> bids orderBook = [] \<or> asks orderBook = []) \<and>
   calculateQuotes ts cfg
     \<lparr>ob_market = m, ob_asset_id = a,
      bids = [\<lparr>price = ''abc'', entry_size = z\<rparr>],
      asks = [\<lparr>price = ''xyz'', entry_size = z'\<rparr>], timestamp = t\<rparr> =
     Some \<lparr>bid = toFixed ts 4 NaN, ask = toFixed ts 4 NaN\<rparr> \<and>
   toFixed ts 4 NaN = ''NaN''"
  by (simp add: calculateQuotes_def Let_def parseFloat_abc parseFloat_xyz toFixed_def)

lemma parseFloat_100: "parseFloat ''100'' = Finite False 100"
  by (simp add: scan_eval round_eval)

lemma quotes_default_040_044:
  "calculateQuotes ts MarketMaker_DEFAULT_CONFIG
     \<lparr>ob_market = m, ob_asset_id = a,
      bids = [\<lparr>price = ''0.40'', entry_size = z\<rparr>],
      asks = [\<lparr>price = ''0.44'', entry_size = z'\<rparr>], timestamp = t\<rparr> =
     Some \<lparr>bid = ''0.3990'', ask = ''0.4410''\<rparr>"
  using quotes_040_044 [of ts MarketMaker_DEFAULT_CONFIG]
  by (simp add: MarketMaker_DEFAULT_CONFIG_def)

lemma default_maxPosition: "maxPosition MarketMaker_DEFAULT_CONFIG = ''100''"
  and default_orderSize: "orderSize MarketMaker_DEFAULT_CONFIG = ''10''"
  by (simp_all add: MarketMaker_DEFAULT_CONFIG_def)

text \<open>
  C6. \<open>generateSignals\<close> returns no signal when the asset is not managed, when it is
  not running and when no quotes can be computed. Otherwise it returns a BUY signal at
  the bid exactly when the position is below \<open>maxPosition\<close>, followed by a SELL signal at
  the ask exactly when the position is above \<open>-maxPosition\<close>, each of the configured
  order size; when both conditions hold both signals are returned.
\<close>

theorem generateSignals_spec:
  "(map_of (states mm) a = None \<longrightarrow> generateSignals ts mm a orderBook = []) \<and>
   (\<forall>state. map_of (states mm) a = Some state \<and> \<not> isRunning state \<longrightarrow>
      generateSignals ts mm a orderBook = []) \<and>
   (calculateQuotes ts (config mm) orderBook = None \<longrightarrow> generateSignals ts mm a orderBook = []) \<and>
   (\<forall>state quotes.
      map_of (states mm) a = Some state \<and> isRunning state \<and>
      calculateQuotes ts (config mm) orderBook = Some quotes \<longrightarrow>
      (let maxPos = parseFloat (maxPosition (config mm));
           buy = \<lparr>sig_market = marketId state, sig_asset_id = a, action = BUY, side = YES,
                  sig_price = bid quotes, sig_size = orderSize (config mm),
                  reason = ''Market making - providing bid liquidity''\<rparr>;
           sell = \<lparr>sig_market = marketId state, sig_asset_id = a, action = SELL, side = YES,
                   sig_price = ask quotes, sig_size = orderSize (config mm),
                   reason = ''Market making - providing ask liquidity''\<rparr>
       in generateSignals ts mm a orderBook =
            (if flt (position state) maxPos then [buy] else []) @
            (if fgt (position state) (fneg maxPos) then [sell] else []) \<and>
          ((\<exists>sg \<in> set (generateSignals ts mm a orderBook). action sg = BUY) \<longleftrightarrow>
             flt (position state) maxPos) \<and>
          ((\<exists>sg \<in> set (generateSignals ts mm a orderBook). action sg = SELL) \<longleftrightarrow>
             fgt (position state) (fneg maxPos)) \<and>
          (flt (position state) maxPos \<and> fgt (position state) (fneg maxPos) \<longrightarrow>
             generateSignals ts mm a orderBook = [buy, sell])))"
  by (auto simp: generateSignals_def Let_def split: option.splits)

text \<open>
  A running asset with the position 0 under the default configuration, on the book with
  bids at 0.40 and asks at 0.44: a BUY at 0.3990 and a SELL at 0.4410, of size 10.
\<close>

theorem generateSignals_spec_witness:
  "generateSignals (\<lambda>a. [])
     \<lparr>config = MarketMaker_DEFAULT_CONFIG,
      states = [(''a'', \<lparr>assetId = ''a'', marketId = ''m'', currentBid = None, currentAsk = None,
                         position = lit 0, isRunning = True\<rparr>)],
      mm_ws = new_PolymarketWebSocket \<lparr>opt_url = None, opt_reconnectInterval = None,
                                       opt_maxReconnectAttempts = None\<rparr> True,
      refreshTimers = [], intervals = [], interval_count = 0\<rparr>
     ''a''
     \<lparr>ob_market = ''m'', ob_asset_id = ''a'',
      bids = [\<lparr>price = ''0.40'', entry_size = ''25''\<rparr>],
      asks = [\<lparr>price = ''0.44'', entry_size = ''30''\<rparr>], timestamp = ''t''\<rparr> =
   [\<lparr>sig_market = ''m'', sig_asset_id = ''a'', action = BUY, side = YES,
     sig_price = ''0.3990'', sig_size = ''10'',
     reason = ''Market making - providing bid liquidity''\<rparr>,
    \<lparr>sig_market = ''m'', sig_asset_id = ''a'', action = SELL, side = YES,
     sig_price = ''0.4410'', sig_size = ''10'',
     reason = ''Market making - providing ask liquidity''\<rparr>] \<and>
   generateSignals (\<lambda>a. [])
     \<lparr>config = MarketMaker_DEFAULT_CONFIG,
      states = [(''a'', \<lparr>assetId = ''a'', marketId = ''m'', currentBid = None, currentAsk = None,
                         position = lit 0, isRunning = True\<rparr>)],
      mm_ws = new_PolymarketWebSocket \<lparr>opt_url = None, opt_reconnectInterval = None,
                                       opt_maxReconnectAttempts = None\<rparr> True,
      refreshTimers = [], intervals = [], interval_count = 0\<rparr>
     ''b''
     \<lparr>ob_market = ''m'', ob_asset_id = ''a'',
      bids = [\<lparr>price = ''0.40'', entry_size = ''25''\<rparr>],
      asks = [\<lparr>price = ''0.44'', entry_size = ''30''\<rparr>], timestamp = ''t''\<rparr> = []"
  using generateSignals_spec [of
      "\<lparr>config = MarketMaker_DEFAULT_CONFIG,
        states = [(''a'', \<lparr>assetId = ''a'', marketId = ''m'', currentBid = None, currentAsk = None,
                           position = lit 0, isRunning = True\<rparr>)],
        mm_ws = new_PolymarketWebSocket \<lparr>opt_url = None, opt_reconnectInterval = None,
                                         opt_maxReconnectAttempts = None\<rparr> True,
        refreshTimers = [], intervals = [], interval_count = 0\<rparr>"
      "''a''" "\<lambda>a. []"
      "\<lparr>ob_market = ''m'', ob_asset_id = ''a'',
        bids = [\<lparr>price = ''0.40'', entry_size = ''25''\<rparr>],
        asks = [\<lparr>price = ''0.44'', entry_size = ''30''\<rparr>], timestamp = ''t''\<rparr>"]
    generateSignals_spec [of
      "\<lparr>config = MarketMaker_DEFAULT_CONFIG,
        states = [(''a'', \<lparr>assetId = ''a'', marketId = ''m'', currentBid = None, currentAsk = None,
                           position = lit 0, isRunning = True\<rparr>)],
        mm_ws = new_PolymarketWebSocket \<lparr>opt_url = None, opt_reconnectInterval = None,
                                         opt_maxReconnectAttempts = None\<rparr> True,
        refreshTimers = [], intervals = [], interval_count = 0\<rparr>"
      "''b''" "\<lambda>a. []"
      "\<lparr>ob_market = ''m'', ob_asset_id = ''a'',
        bids = [\<lparr>price = ''0.40'', entry_size = ''25''\<rparr>],
        asks = [\<lparr>price = ''0.44'', entry_size = ''30''\<rparr>], timestamp = ''t''\<rparr>"]
  by (simp add: quotes_default_040_044 default_maxPosition default_orderSize parseFloat_100
      fgt_def val_def Let_def)

section \<open>Order of numbers\<close>
















section \<open>Subscription registry\<close>

lemma fold_delete_filter: "fold AList.delete ks al = filter (\<lambda>p. fst p \<notin> set ks) al"
proof (induction ks arbitrary: al)
  case Nil
  show ?case by simp
next
  case (Cons k ks)
  have "fold AList.delete (k # ks) al = filter (\<lambda>p. fst p \<notin> set ks) (filter (\<lambda>p. fst p \<noteq> k) al)"
    by (simp add: Cons.IH AList.delete_eq case_prod_beta) (metis)
  also have "\<dots> = filter (\<lambda>p. fst p \<notin> set (k # ks)) al"
    by (induction al) auto
  finally show ?case .
qed

lemma map_of_filter_out: "a \<in> set ks \<Longrightarrow> map_of (filter (\<lambda>p. fst p \<notin> set ks) al) a = None"
  by (induction al) auto

lemma unsubscribe_fold:
  "fold (\<lambda>assetId s'.
           s'\<lparr>orderBookCallbacks := AList.delete assetId (orderBookCallbacks s'),
               priceCallbacks := AList.delete assetId (priceCallbacks s')\<rparr>) ks s =
   s\<lparr>orderBookCallbacks := fold AList.delete ks (orderBookCallbacks s),
     priceCallbacks := fold AList.delete ks (priceCallbacks s)\<rparr>"
  by (induction ks arbitrary: s) simp_all

lemma unsubscribe_registry:
  "orderBookCallbacks (unsubscribe ks s) = filter (\<lambda>p. fst p \<notin> set ks) (orderBookCallbacks s)"
  "priceCallbacks (unsubscribe ks s) = filter (\<lambda>p. fst p \<notin> set ks) (priceCallbacks s)"
  by (simp_all add: unsubscribe_def unsubscribe_fold fold_delete_filter send_def Let_def
      split: option.splits)

lemma unsubscribe_calls: "calls (unsubscribe ks s) = calls s"
  by (simp add: unsubscribe_def unsubscribe_fold send_def Let_def split: option.splits)

lemma handleMessage_no_handlers:
  assumes "get_or_empty (orderBookCallbacks s) (msg_asset_id message) = []"
    and "get_or_empty (priceCallbacks s) (msg_asset_id message) = []"
  shows "handleMessage now (Some message) s = s"
  using assms by (simp add: handleMessage_def Let_def split: option.splits)

text \<open>
  C8. After \<open>unsubscribe\<close> of a list of assets, no order-book handler and no price
  handler is registered for any of them, however many there were, and an inbound frame
  for such an asset invokes no handler: it leaves the client as it is.
\<close>

theorem unsubscribe_spec:
  "\<forall>a \<in> set assetIds.
     get_or_empty (orderBookCallbacks (unsubscribe assetIds s)) a = [] \<and>
     get_or_empty (priceCallbacks (unsubscribe assetIds s)) a = [] \<and>
     (\<forall>now message. msg_asset_id message = a \<longrightarrow>
        handleMessage now (Some message) (unsubscribe assetIds s) = unsubscribe assetIds s \<and>
        calls (handleMessage now (Some message) (unsubscribe assetIds s)) = calls s)"
proof
  fix a assume a: "a \<in> set assetIds"
  have 1: "get_or_empty (orderBookCallbacks (unsubscribe assetIds s)) a = []"
    and 2: "get_or_empty (priceCallbacks (unsubscribe assetIds s)) a = []"
    using a by (simp_all add: get_or_empty_def unsubscribe_registry map_of_filter_out)
  show "get_or_empty (orderBookCallbacks (unsubscribe assetIds s)) a = [] \<and>
     get_or_empty (priceCallbacks (unsubscribe assetIds s)) a = [] \<and>
     (\<forall>now message. msg_asset_id message = a \<longrightarrow>
        handleMessage now (Some message) (unsubscribe assetIds s) = unsubscribe assetIds s \<and>
        calls (handleMessage now (Some message) (unsubscribe assetIds s)) = calls s)"
    using 1 2 by (simp add: handleMessage_no_handlers unsubscribe_calls)
qed

lemma getWebSocket_fields:
  "orderBookCallbacks (getWebSocket b) = []" "priceCallbacks (getWebSocket b) = []"
  "calls (getWebSocket b) = []" "ws (getWebSocket b) = None" "sockets (getWebSocket b) = []"
  "reconnectTimers (getWebSocket b) = 0" "onError (getWebSocket b) = None"
  "isConnecting (getWebSocket b) = False" "shouldReconnect (getWebSocket b) = True"
  "url_accepted (getWebSocket b) = b" "sent (getWebSocket b) = []"
  "reconnectAttempts (getWebSocket b) = Finite False 0"
  by (simp_all add: getWebSocket_def new_PolymarketWebSocket_def)

lemma lit_10: "lit 10 = Finite False 10"
  by (simp add: lit_def round_eval)

lemma getWebSocket_max: "maxReconnectAttempts (ws_config (getWebSocket b)) = Finite False 10"
  by (simp add: getWebSocket_def new_PolymarketWebSocket_def number_or_def lit_10)

text \<open>
  Two order-book handlers and a price handler are registered for an asset; after
  \<open>unsubscribe\<close> a book frame for it invokes none of them.
\<close>

theorem unsubscribe_spec_witness:
  "''a'' \<in> set [''a''] \<and>
   get_or_empty
     (orderBookCallbacks
        (subscribePrice [''a''] (PriceListener 2)
           (subscribeOrderBook [''a''] (BookListener 1)
              (subscribeOrderBook [''a''] (BookListener 0) (getWebSocket True))))) ''a'' =
     [BookListener 0, BookListener 1] \<and>
   calls (handleMessage ''now''
     (Some \<lparr>msg_type = ''book'', msg_asset_id = ''a'', msg_market = None,
            msg_data = Some \<lparr>data_bids = None, data_asks = None, data_timestamp = None,
                             data_price = ''''\<rparr>\<rparr>)
     (unsubscribe [''a'']
        (subscribePrice [''a''] (PriceListener 2)
           (subscribeOrderBook [''a''] (BookListener 1)
              (subscribeOrderBook [''a''] (BookListener 0) (getWebSocket True)))))) = []"
proof -
  let ?s = "subscribePrice [''a''] (PriceListener 2)
         (subscribeOrderBook [''a''] (BookListener 1)
            (subscribeOrderBook [''a''] (BookListener 0) (getWebSocket True)))"
  let ?m = "\<lparr>msg_type = ''book'', msg_asset_id = ''a'', msg_market = None,
            msg_data = Some \<lparr>data_bids = None, data_asks = None, data_timestamp = None,
                             data_price = ''''\<rparr>\<rparr>"
  have mem: "''a'' \<in> set [''a'']" by simp
  have m: "msg_asset_id ?m = ''a''" by simp
  have "calls (handleMessage ''now'' (Some ?m) (unsubscribe [''a''] ?s)) = calls ?s"
    using unsubscribe_spec [of "[''a'']" ?s, THEN bspec, OF mem] m by blast
  moreover have "calls ?s = []"
    by (simp add: subscribePrice_def subscribeOrderBook_def isConnected_def getWebSocket_fields
        Let_def)
  moreover have "get_or_empty (orderBookCallbacks ?s) ''a'' = [BookListener 0, BookListener 1]"
    by (simp add: subscribePrice_def subscribeOrderBook_def isConnected_def getWebSocket_fields
        get_or_empty_def Let_def)
  ultimately show ?thesis by simp
qed

section \<open>Duplicate subscriptions\<close>

lemma get_update:
  "get_or_empty (AList.update k v m) a = (if a = k then v else get_or_empty m a)"
  by (simp add: get_or_empty_def update_conv')

lemma fold_append_get:
  "get_or_empty (fold (\<lambda>k m. AList.update k (get_or_empty m k @ [cb]) m) ks m) a =
   get_or_empty m a @ replicate (count_list ks a) cb"
  by (induction ks arbitrary: m) (simp_all add: get_update replicate_app_Cons_same)

lemma subscribeOrderBook_fold:
  "fold (\<lambda>assetId s'.
           s'\<lparr>orderBookCallbacks :=
                AList.update assetId (get_or_empty (orderBookCallbacks s') assetId @ [cb])
                  (orderBookCallbacks s')\<rparr>) ks s =
   s\<lparr>orderBookCallbacks :=
       fold (\<lambda>k m. AList.update k (get_or_empty m k @ [cb]) m) ks (orderBookCallbacks s)\<rparr>"
  by (induction ks arbitrary: s) simp_all

lemma subscribePrice_fold:
  "fold (\<lambda>assetId s'.
           s'\<lparr>priceCallbacks :=
                AList.update assetId (get_or_empty (priceCallbacks s') assetId @ [cb])
                  (priceCallbacks s')\<rparr>) ks s =
   s\<lparr>priceCallbacks :=
       fold (\<lambda>k m. AList.update k (get_or_empty m k @ [cb]) m) ks (priceCallbacks s)\<rparr>"
  by (induction ks arbitrary: s) simp_all

lemma subscribeOrderBook_get:
  "get_or_empty (orderBookCallbacks (subscribeOrderBook ks cb s)) a =
   get_or_empty (orderBookCallbacks s) a @ replicate (count_list ks a) cb"
  by (simp add: subscribeOrderBook_def subscribeOrderBook_fold fold_append_get
      sendSubscription_def send_def Let_def split: option.splits)

lemma subscribePrice_get:
  "get_or_empty (priceCallbacks (subscribePrice ks cb s)) a =
   get_or_empty (priceCallbacks s) a @ replicate (count_list ks a) cb"
  by (simp add: subscribePrice_def subscribePrice_fold fold_append_get
      sendSubscription_def send_def Let_def split: option.splits)

lemma unsubscribe_connected: "isConnected (unsubscribe ks s) = isConnected s"
  by (simp add: unsubscribe_def unsubscribe_fold send_def isConnected_def Let_def
      split: option.splits)

lemma isConnected_registry [simp]:
  "isConnected (s\<lparr>orderBookCallbacks := x\<rparr>) = isConnected s"
  "isConnected (s\<lparr>priceCallbacks := y\<rparr>) = isConnected s"
  by (simp_all add: isConnected_def split: option.splits)

lemma unsubscribe_not_connected:
  "\<not> isConnected s \<Longrightarrow>
   unsubscribe ks s =
     s\<lparr>orderBookCallbacks := filter (\<lambda>p. fst p \<notin> set ks) (orderBookCallbacks s),
       priceCallbacks := filter (\<lambda>p. fst p \<notin> set ks) (priceCallbacks s)\<rparr>"
  by (simp add: unsubscribe_def unsubscribe_fold fold_delete_filter Let_def)

lemma unsubscribe_twice:
  assumes "\<not> isConnected s"
  shows "unsubscribe ks (unsubscribe ks s) = unsubscribe ks s"
proof -
  from assms have "\<not> isConnected (unsubscribe ks s)"
    by (simp add: unsubscribe_connected)
  then show ?thesis
    using assms by (simp add: unsubscribe_not_connected)
qed

text \<open>
  C5, as stated, fails: a second \<open>subscribeOrderBook\<close> with the same arguments changes
  the registry, and a book frame for the asset then invokes the handler twice.
\<close>

theorem subscribe_twice_counterexample:
  "subscribeOrderBook [''a''] (BookListener 0)
     (subscribeOrderBook [''a''] (BookListener 0) (getWebSocket True)) \<noteq>
   subscribeOrderBook [''a''] (BookListener 0) (getWebSocket True) \<and>
   calls (handleMessage ''now''
     (Some \<lparr>msg_type = ''book'', msg_asset_id = ''a'', msg_market = None,
            msg_data = Some \<lparr>data_bids = None, data_asks = None, data_timestamp = None,
                             data_price = ''''\<rparr>\<rparr>)
     (subscribeOrderBook [''a''] (BookListener 0)
        (subscribeOrderBook [''a''] (BookListener 0) (getWebSocket True)))) =
   [OrderBookCall (BookListener 0)
      \<lparr>ob_market = '''', ob_asset_id = ''a'', bids = [], asks = [], timestamp = ''now''\<rparr>,
    OrderBookCall (BookListener 0)
      \<lparr>ob_market = '''', ob_asset_id = ''a'', bids = [], asks = [], timestamp = ''now''\<rparr>]"
proof -
  have "orderBookCallbacks (subscribeOrderBook [''a''] (BookListener 0)
          (subscribeOrderBook [''a''] (BookListener 0) (getWebSocket True))) \<noteq>
        orderBookCallbacks (subscribeOrderBook [''a''] (BookListener 0) (getWebSocket True))"
    by (simp add: subscribeOrderBook_def isConnected_def getWebSocket_fields get_or_empty_def
        Let_def)
  then have "subscribeOrderBook [''a''] (BookListener 0)
     (subscribeOrderBook [''a''] (BookListener 0) (getWebSocket True)) \<noteq>
   subscribeOrderBook [''a''] (BookListener 0) (getWebSocket True)"
    by metis
  then show ?thesis
    by (simp add: handleMessage_def subscribeOrderBook_get getWebSocket_fields get_or_empty_def
        parseOrderBook_def string_or_def subscribeOrderBook_def isConnected_def Let_def)
qed

text \<open>
  C5, amended. The registry is additive: \<open>subscribeOrderBook\<close> and \<open>subscribePrice\<close>
  append the handler to the handlers of an asset once for every occurrence of the asset
  in the list, so two calls with the same arguments leave it registered twice more, and
  a book or price frame invokes every registered handler, in order, once for each time it
  is registered. A second \<open>unsubscribe\<close> of the same assets leaves both registries as the
  first left them, and the whole client when it is not connected.
\<close>

theorem subscribe_appends:
  "get_or_empty (orderBookCallbacks (subscribeOrderBook assetIds cb s)) a =
     get_or_empty (orderBookCallbacks s) a @ replicate (count_list assetIds a) cb \<and>
   get_or_empty (priceCallbacks (subscribePrice assetIds pcb s)) a =
     get_or_empty (priceCallbacks s) a @ replicate (count_list assetIds a) pcb \<and>
   get_or_empty (orderBookCallbacks
       (subscribeOrderBook assetIds cb (subscribeOrderBook assetIds cb s))) a =
     get_or_empty (orderBookCallbacks s) a @ replicate (2 * count_list assetIds a) cb \<and>
   get_or_empty (priceCallbacks (subscribePrice assetIds pcb (subscribePrice assetIds pcb s))) a =
     get_or_empty (priceCallbacks s) a @ replicate (2 * count_list assetIds a) pcb \<and>
   (msg_type message = ''book'' \<and> msg_data message = Some d \<longrightarrow>
      calls (handleMessage now (Some message) s) =
        calls s @ map (\<lambda>c. OrderBookCall c (parseOrderBook now message d))
                    (get_or_empty (orderBookCallbacks s) (msg_asset_id message))) \<and>
   (msg_type message = ''price_change'' \<and> msg_data message = Some d \<longrightarrow>
      calls (handleMessage now (Some message) s) =
        calls s @ map (\<lambda>c. PriceCall c (msg_asset_id message) (data_price d))
                    (get_or_empty (priceCallbacks s) (msg_asset_id message))) \<and>
   orderBookCallbacks (unsubscribe assetIds (unsubscribe assetIds s)) =
     orderBookCallbacks (unsubscribe assetIds s) \<and>
   priceCallbacks (unsubscribe assetIds (unsubscribe assetIds s)) =
     priceCallbacks (unsubscribe assetIds s) \<and>
   (\<not> isConnected s \<longrightarrow> unsubscribe assetIds (unsubscribe assetIds s) = unsubscribe assetIds s)"
  by (simp add: subscribeOrderBook_get subscribePrice_get replicate_add [symmetric]
      handleMessage_def Let_def unsubscribe_registry unsubscribe_twice mult_2)

text \<open>
  On the fresh shared client, which is not connected: a book frame after one
  subscription invokes the handler once, and a second \<open>unsubscribe\<close> changes nothing.
\<close>

theorem subscribe_appends_witness:
  "msg_type \<lparr>msg_type = ''book'', msg_asset_id = ''a'', msg_market = None,
             msg_data = Some \<lparr>data_bids = None, data_asks = None, data_timestamp = None,
                              data_price = ''''\<rparr>\<rparr> = ''book'' \<and>
   calls (handleMessage ''now''
     (Some \<lparr>msg_type = ''book'', msg_asset_id = ''a'', msg_market = None,
            msg_data = Some \<lparr>data_bids = None, data_asks = None, data_timestamp = None,
                             data_price = ''''\<rparr>\<rparr>)
     (subscribeOrderBook [''a''] (BookListener 0) (getWebSocket True))) =
   [OrderBookCall (BookListener 0)
      \<lparr>ob_market = '''', ob_asset_id = ''a'', bids = [], asks = [], timestamp = ''now''\<rparr>] \<and>
   \<not> isConnected (getWebSocket True) \<and>
   unsubscribe [''a''] (unsubscribe [''a''] (getWebSocket True)) =
     unsubscribe [''a''] (getWebSocket True)"
proof -
  let ?s0 = "getWebSocket True"
  let ?s1 = "subscribeOrderBook [''a''] (BookListener 0) ?s0"
  let ?d = "\<lparr>data_bids = None, data_asks = None, data_timestamp = None, data_price = ''''\<rparr>"
  let ?m = "\<lparr>msg_type = ''book'', msg_asset_id = ''a'', msg_market = None, msg_data = Some ?d\<rparr>"
  have hyp: "msg_type ?m = ''book'' \<and> msg_data ?m = Some ?d" by simp
  have nc: "\<not> isConnected ?s0"
    by (simp add: isConnected_def getWebSocket_fields)
  have 1: "calls (handleMessage ''now'' (Some ?m) ?s1) =
        calls ?s1 @ map (\<lambda>c. OrderBookCall c (parseOrderBook ''now'' ?m ?d))
                      (get_or_empty (orderBookCallbacks ?s1) (msg_asset_id ?m))"
    using subscribe_appends [of "[''a'']" "BookListener 0" ?s1 "''a''" "PriceListener 0"
        ?m ?d "''now''"] hyp by blast
  have 2: "get_or_empty (orderBookCallbacks ?s1) ''a'' =
        get_or_empty (orderBookCallbacks ?s0) ''a'' @
        replicate (count_list [''a''] ''a'') (BookListener 0)"
    using subscribe_appends [of "[''a'']" "BookListener 0" ?s0 "''a''" "PriceListener 0"
        ?m ?d "''now''"] by blast
  have 3: "unsubscribe [''a''] (unsubscribe [''a''] ?s0) = unsubscribe [''a''] ?s0"
    using subscribe_appends [of "[''a'']" "BookListener 0" ?s0 "''a''" "PriceListener 0"
        ?m ?d "''now''"] nc by blast
  have 4: "calls ?s1 = []"
    by (simp add: subscribeOrderBook_def isConnected_def getWebSocket_fields Let_def)
  from 1 2 3 4 nc show ?thesis
    by (simp add: getWebSocket_fields parseOrderBook_def string_or_def get_or_empty_def)
qed

section \<open>Reconnection\<close>

lemma send_fields [simp]:
  "reconnectAttempts (send f s) = reconnectAttempts s"
  "reconnectTimers (send f s) = reconnectTimers s"
  "calls (send f s) = calls s"
  "shouldReconnect (send f s) = shouldReconnect s"
  by (simp_all add: send_def split: option.splits)

lemma sendSubscription_fields [simp]:
  "reconnectAttempts (sendSubscription ks c s) = reconnectAttempts s"
  "reconnectTimers (sendSubscription ks c s) = reconnectTimers s"
  "calls (sendSubscription ks c s) = calls s"
  "shouldReconnect (sendSubscription ks c s) = shouldReconnect s"
  by (simp_all add: sendSubscription_def)

lemma resubscribeAll_fields [simp]:
  "reconnectAttempts (resubscribeAll s) = reconnectAttempts s"
  "reconnectTimers (resubscribeAll s) = reconnectTimers s"
  "calls (resubscribeAll s) = calls s"
  "shouldReconnect (resubscribeAll s) = shouldReconnect s"
  by (simp_all add: resubscribeAll_def Let_def)

lemma shouldReconnect_subscribe [simp]:
  "shouldReconnect (subscribeOrderBook ks cb s) = shouldReconnect s"
  "shouldReconnect (subscribePrice ks pcb s) = shouldReconnect s"
  "shouldReconnect (unsubscribe ks s) = shouldReconnect s"
  by (simp_all add: subscribeOrderBook_def subscribeOrderBook_fold subscribePrice_def
      subscribePrice_fold unsubscribe_def unsubscribe_fold Let_def)

lemma shouldReconnect_handleMessage [simp]:
  "shouldReconnect (handleMessage now parsed s) = shouldReconnect s"
  by (simp add: handleMessage_def Let_def split: option.splits)

lemma step_keeps_stopped:
  assumes "e \<noteq> Connect" and "e \<noteq> TimerFired" and "\<not> shouldReconnect s"
  shows "\<not> shouldReconnect (step e s)"
  using assms
  by (cases e)
    (simp_all add: step_def onopen_def onmessage_def onerror_def onclose_def
      attemptReconnect_def disconnect_def setErrorHandler_def Let_def split: option.splits)

lemma run_keeps_stopped:
  assumes "\<forall>e \<in> set es. e \<noteq> Connect \<and> e \<noteq> TimerFired" and "\<not> shouldReconnect s"
  shows "\<not> shouldReconnect (run es s)"
  using assms
proof (induction es arbitrary: s)
  case Nil
  then show ?case by (simp add: run_def)
next
  case (Cons e es)
  then have "\<not> shouldReconnect (step e s)"
    by (simp add: step_keeps_stopped)
  with Cons show ?case by (simp add: run_def)
qed

lemma close_when_stopped:
  assumes "\<not> shouldReconnect s"
  shows "reconnectAttempts (fire (SocketClose h) s) = reconnectAttempts s"
    and "reconnectTimers (fire (SocketClose h) s) = reconnectTimers s"
    and "calls (fire (SocketClose h) s) = calls s"
  using assms by (simp_all add: onclose_def attemptReconnect_def)

lemma shouldReconnect_disconnect: "\<not> shouldReconnect (disconnect s)"
  by (simp add: disconnect_def Let_def split: option.splits)

text \<open>
  C4, amended. An open event resets the reconnect counter to zero. A close event while
  the reconnect flag is set and the counter is below \<open>maxReconnectAttempts\<close> (10 by
  default) adds one to the counter and schedules one reconnect, without a call of the
  error handler; when the counter has reached \<open>maxReconnectAttempts\<close> it schedules
  nothing, leaves the counter and calls the error handler, if one is set, once with the
  terminal error. Every error event of a socket calls the error handler as well. After
  \<open>disconnect\<close>, and as long as \<open>connect\<close> is not called again, by a caller or by a
  reconnect timer that was pending, a close event changes neither the counter nor the
  scheduled reconnects and calls no handler.
\<close>

theorem reconnect_policy:
  "reconnectAttempts (fire (SocketOpen h) s) = lit 0 \<and>
   (shouldReconnect s \<and> \<not> fge (reconnectAttempts s) (maxReconnectAttempts (ws_config s)) \<longrightarrow>
      reconnectAttempts (fire (SocketClose h) s) = fadd (reconnectAttempts s) (lit 1) \<and>
      reconnectTimers (fire (SocketClose h) s) = Suc (reconnectTimers s) \<and>
      calls (fire (SocketClose h) s) = calls s) \<and>
   (shouldReconnect s \<and> fge (reconnectAttempts s) (maxReconnectAttempts (ws_config s)) \<longrightarrow>
      reconnectAttempts (fire (SocketClose h) s) = reconnectAttempts s \<and>
      reconnectTimers (fire (SocketClose h) s) = reconnectTimers s \<and>
      calls (fire (SocketClose h) s) =
        calls s @ (case onError s of None \<Rightarrow> []
                   | Some cb \<Rightarrow> [ErrorCall cb ''Max reconnection attempts reached''])) \<and>
   calls (fire (SocketError h) s) =
     calls s @ (case onError s of None \<Rightarrow> [] | Some cb \<Rightarrow> [ErrorCall cb ''WebSocket error'']) \<and>
   (\<forall>es. (\<forall>e \<in> set es. e \<noteq> Connect \<and> e \<noteq> TimerFired) \<longrightarrow>
      \<not> shouldReconnect (run es (disconnect s)) \<and>
      reconnectAttempts (fire (SocketClose h) (run es (disconnect s))) =
        reconnectAttempts (run es (disconnect s)) \<and>
      reconnectTimers (fire (SocketClose h) (run es (disconnect s))) =
        reconnectTimers (run es (disconnect s)) \<and>
      calls (fire (SocketClose h) (run es (disconnect s))) = calls (run es (disconnect s))) \<and>
   maxReconnectAttempts (ws_config (getWebSocket b)) = lit 10"
proof -
  have stopped: "\<not> shouldReconnect (run es (disconnect s))"
    if "\<forall>e \<in> set es. e \<noteq> Connect \<and> e \<noteq> TimerFired" for es
    using that by (simp add: run_keeps_stopped shouldReconnect_disconnect)
  show ?thesis
    using stopped
    by (auto simp: onopen_def onclose_def onerror_def attemptReconnect_def close_when_stopped
        getWebSocket_max lit_10 Let_def split: option.splits)
qed

lemmas client_eval =
  run_def step_def new_PolymarketWebSocket_def getWebSocket_def number_or_def string_or_def
  connect_def isConnected_def disconnect_def close_socket_def setErrorHandler_def
  onopen_def onerror_def onclose_def attemptReconnect_def resubscribeAll_def
  sendSubscription_def send_def fge_def lit_def round_eval

text \<open>
  C4, as stated, fails. With one reconnect attempt allowed, an error handler set and two
  connection attempts that fail with an error event and a close event each, the handler
  is called three times. The counter reaches the maximum at the first close, and when
  the reconnect then scheduled succeeds, the next close schedules another one. With the
  default configuration, the close event of a socket that \<open>disconnect\<close> closed schedules
  a reconnect when \<open>connect\<close> was called before the event arrived.
\<close>

theorem reconnect_counterexample:
  "calls (run [SetErrorHandler 7, Connect, SocketError 0, SocketClose 0, TimerFired,
               SocketError 1, SocketClose 1]
            (new_PolymarketWebSocket
               \<lparr>opt_url = None, opt_reconnectInterval = None,
                opt_maxReconnectAttempts = Some (lit 1)\<rparr> True)) =
     [ErrorCall 7 ''WebSocket error'', ErrorCall 7 ''WebSocket error'',
      ErrorCall 7 ''Max reconnection attempts reached''] \<and>
   reconnectAttempts (run [Connect, SocketClose 0]
            (new_PolymarketWebSocket
               \<lparr>opt_url = None, opt_reconnectInterval = None,
                opt_maxReconnectAttempts = Some (lit 1)\<rparr> True)) = lit 1 \<and>
   reconnectTimers (run [Connect, SocketClose 0, TimerFired, SocketOpen 1]
            (new_PolymarketWebSocket
               \<lparr>opt_url = None, opt_reconnectInterval = None,
                opt_maxReconnectAttempts = Some (lit 1)\<rparr> True)) = 0 \<and>
   reconnectTimers (run [Connect, SocketClose 0, TimerFired, SocketOpen 1, SocketClose 1]
            (new_PolymarketWebSocket
               \<lparr>opt_url = None, opt_reconnectInterval = None,
                opt_maxReconnectAttempts = Some (lit 1)\<rparr> True)) = 1 \<and>
   reconnectTimers (run [Connect, SocketOpen 0, Disconnect, Connect] (getWebSocket True)) = 0 \<and>
   reconnectTimers (run [Connect, SocketOpen 0, Disconnect, Connect, SocketClose 0]
            (getWebSocket True)) = 1"
  by (simp add: client_eval)

text \<open>
  The three cases at work: a first failed attempt under the default configuration,
  which is counted and retried; a failed retry when one attempt is allowed, which calls
  the handler; and a close event after \<open>disconnect\<close>, which does nothing.
\<close>

theorem reconnect_policy_witness:
  "shouldReconnect (run [SetErrorHandler 7, Connect] (getWebSocket True)) \<and>
   \<not> fge (reconnectAttempts (run [SetErrorHandler 7, Connect] (getWebSocket True)))
          (maxReconnectAttempts (ws_config (run [SetErrorHandler 7, Connect] (getWebSocket True)))) \<and>
   reconnectAttempts (fire (SocketClose 0) (run [SetErrorHandler 7, Connect] (getWebSocket True))) =
     Finite False 1 \<and>
   reconnectTimers (fire (SocketClose 0) (run [SetErrorHandler 7, Connect] (getWebSocket True))) = 1 \<and>
   fge (reconnectAttempts
          (run [SetErrorHandler 7, Connect, SocketClose 0, TimerFired]
             (new_PolymarketWebSocket
                \<lparr>opt_url = None, opt_reconnectInterval = None,
                 opt_maxReconnectAttempts = Some (lit 1)\<rparr> True)))
       (maxReconnectAttempts (ws_config
          (run [SetErrorHandler 7, Connect, SocketClose 0, TimerFired]
             (new_PolymarketWebSocket
                \<lparr>opt_url = None, opt_reconnectInterval = None,
                 opt_maxReconnectAttempts = Some (lit 1)\<rparr> True)))) \<and>
   calls (fire (SocketClose 1)
          (run [SetErrorHandler 7, Connect, SocketClose 0, TimerFired]
             (new_PolymarketWebSocket
                \<lparr>opt_url = None, opt_reconnectInterval = None,
                 opt_maxReconnectAttempts = Some (lit 1)\<rparr> True))) =
     [ErrorCall 7 ''Max reconnection attempts reached''] \<and>
   SocketError 0 \<noteq> Connect \<and> SocketError 0 \<noteq> TimerFired \<and>
   reconnectTimers (fire (SocketClose 0)
      (run [SocketError 0] (disconnect (run [Connect, SocketOpen 0] (getWebSocket True))))) = 0 \<and>
   calls (fire (SocketClose 0)
      (run [SocketError 0] (disconnect (run [Connect, SocketOpen 0] (getWebSocket True))))) = []"
proof -
  let ?s1 = "run [SetErrorHandler 7, Connect] (getWebSocket True)"
  let ?s2 = "run [SetErrorHandler 7, Connect, SocketClose 0, TimerFired]
             (new_PolymarketWebSocket
                \<lparr>opt_url = None, opt_reconnectInterval = None,
                 opt_maxReconnectAttempts = Some (lit 1)\<rparr> True)"
  let ?s3 = "run [Connect, SocketOpen 0] (getWebSocket True)"
  have h1: "shouldReconnect ?s1 \<and>
      \<not> fge (reconnectAttempts ?s1) (maxReconnectAttempts (ws_config ?s1))"
    and v1: "reconnectAttempts ?s1 = Finite False 0" "reconnectTimers ?s1 = 0"
    by (simp_all add: client_eval)
  have h2: "shouldReconnect ?s2 \<and>
      fge (reconnectAttempts ?s2) (maxReconnectAttempts (ws_config ?s2))"
    and v2: "calls ?s2 = []" "onError ?s2 = Some 7"
    by (simp_all add: client_eval)
  have h3: "\<forall>e \<in> set [SocketError 0]. e \<noteq> Connect \<and> e \<noteq> TimerFired"
    by simp
  have v3: "reconnectTimers (run [SocketError 0] (disconnect ?s3)) = 0"
      "calls (run [SocketError 0] (disconnect ?s3)) = []"
    by (simp_all add: client_eval)
  have c1: "reconnectAttempts (fire (SocketClose 0) ?s1) = fadd (reconnectAttempts ?s1) (lit 1) \<and>
      reconnectTimers (fire (SocketClose 0) ?s1) = Suc (reconnectTimers ?s1)"
    using reconnect_policy [of 0 ?s1 True] h1 by blast
  have c2: "calls (fire (SocketClose 1) ?s2) =
        calls ?s2 @ (case onError ?s2 of None \<Rightarrow> []
                   | Some cb \<Rightarrow> [ErrorCall cb ''Max reconnection attempts reached''])"
    using reconnect_policy [of 1 ?s2 True] h2 by blast
  have c3: "reconnectTimers (fire (SocketClose 0) (run [SocketError 0] (disconnect ?s3))) =
        reconnectTimers (run [SocketError 0] (disconnect ?s3)) \<and>
      calls (fire (SocketClose 0) (run [SocketError 0] (disconnect ?s3))) =
        calls (run [SocketError 0] (disconnect ?s3))"
    using reconnect_policy [of 0 ?s3 True] h3 by blast
  have f: "fadd (Finite False 0) (lit 1) = Finite False 1"
    by (simp add: round_eval)
  from h1 h2 h3 c1 c2 c3 v1 v2 v3 f show ?thesis
    by simp
qed

section \<open>Starting the market maker\<close>

lemma start_resume_states [simp]: "states (start_resume a mm) = states mm"
  and start_resume_config [simp]: "config (start_resume a mm) = config mm"
  by (simp_all add: start_resume_def Let_def)

lemma start_states:
  "states (outcome_state (start True a m mm)) =
     (if map_of (states mm) a \<noteq> None then states mm
      else AList.update a
             \<lparr>assetId = a, marketId = m, currentBid = None, currentAsk = None,
              position = lit 0, isRunning = True\<rparr> (states mm))"
  by (simp add: start_def Let_def split: prod.splits Promise.splits)

lemma start_config [simp]: "config (outcome_state (start c a m mm)) = config mm"
  by (simp add: start_def Let_def split: prod.splits Promise.splits)

lemma start_managed: "map_of (states mm) a \<noteq> None \<Longrightarrow> start True a m mm = Returned mm"
  by (simp add: start_def)

lemma start_manages: "map_of (states (outcome_state (start True a m mm))) a \<noteq> None"
  by (simp add: start_states update_conv')

lemma one_entry_present:
  "distinct (map fst al) \<Longrightarrow> map_of al a \<noteq> None \<Longrightarrow> length (filter (\<lambda>p. fst p = a) al) = 1"
proof (induction al)
  case Nil
  then show ?case by simp
next
  case (Cons p al)
  show ?case
  proof (cases "fst p = a")
    case True
    with Cons.prems have "a \<notin> fst ` set al" by auto
    then have "filter (\<lambda>p. fst p = a) al = []" by (auto simp: filter_empty_conv)
    with True show ?thesis by simp
  next
    case False
    with Cons show ?thesis by (cases p) auto
  qed
qed

lemma one_entry_added:
  "map_of al a = None \<Longrightarrow> length (filter (\<lambda>p. fst p = a) (AList.update a v al)) = 1"
  by (induction al) (auto split: if_splits)

text \<open>
  C7. Without credentials \<open>start\<close> throws and leaves the engine and the shared client as
  they are: no state, no timer, no subscription. For an asset under management it returns
  at once and changes nothing. After a first call with credentials the asset is under
  management, whatever the outcome of the call, so a second call, before or after the
  first has resumed, changes nothing: there is one state entry for the asset, and only
  the first call subscribes, once, and starts a timer, once.
\<close>

theorem start_spec:
  "start False a m mm = Threw CredentialsRequired mm \<and>
   (map_of (states mm) a \<noteq> None \<longrightarrow> start True a m mm = Returned mm) \<and>
   map_of (states (outcome_state (start True a m mm))) a \<noteq> None \<and>
   start True a m' (outcome_state (start True a m mm)) =
     Returned (outcome_state (start True a m mm)) \<and>
   start True a m' (start_resume a (outcome_state (start True a m mm))) =
     Returned (start_resume a (outcome_state (start True a m mm))) \<and>
   (distinct (map fst (states mm)) \<longrightarrow>
      length (filter (\<lambda>p. fst p = a) (states (outcome_state (start True a m mm)))) = 1) \<and>
   get_or_empty (orderBookCallbacks (mm_ws (start_resume a mm))) a =
     get_or_empty (orderBookCallbacks (mm_ws mm)) a @ [MarketMakerUpdate a] \<and>
   intervals (start_resume a mm) = intervals mm @ [(Suc (interval_count mm), a)] \<and>
   (map_of (states mm) a = None \<and> isConnected (mm_ws mm) \<longrightarrow>
      start True a m mm =
        Returned (start_resume a
          (mm\<lparr>states := AList.update a
                 \<lparr>assetId = a, marketId = m, currentBid = None, currentAsk = None,
                  position = lit 0, isRunning = True\<rparr> (states mm)\<rparr>))) \<and>
   (map_of (states mm) a = None \<and> \<not> isConnected (mm_ws mm) \<longrightarrow>
      orderBookCallbacks (mm_ws (outcome_state (start True a m mm))) =
        orderBookCallbacks (mm_ws mm) \<and>
      intervals (outcome_state (start True a m mm)) = intervals mm)"
proof (intro conjI impI)
  show "start False a m mm = Threw CredentialsRequired mm"
    by (simp add: start_def)
  show "start True a m mm = Returned mm" if "map_of (states mm) a \<noteq> None"
    using that by (rule start_managed)
  show "map_of (states (outcome_state (start True a m mm))) a \<noteq> None"
    by (rule start_manages)
  show "start True a m' (outcome_state (start True a m mm)) =
     Returned (outcome_state (start True a m mm))"
    by (rule start_managed) (rule start_manages)
  show "start True a m' (start_resume a (outcome_state (start True a m mm))) =
     Returned (start_resume a (outcome_state (start True a m mm)))"
    by (rule start_managed) (simp add: start_manages)
  show "length (filter (\<lambda>p. fst p = a) (states (outcome_state (start True a m mm)))) = 1"
    if d: "distinct (map fst (states mm))"
  proof (cases "map_of (states mm) a")
    case None
    then show ?thesis
      using one_entry_added [OF None] by (simp add: start_states)
  next
    case (Some st)
    then show ?thesis
      using one_entry_present [OF d, of a] by (simp add: start_states)
  qed
  show "get_or_empty (orderBookCallbacks (mm_ws (start_resume a mm))) a =
     get_or_empty (orderBookCallbacks (mm_ws mm)) a @ [MarketMakerUpdate a]"
    by (simp add: start_resume_def Let_def subscribeOrderBook_get)
  show "intervals (start_resume a mm) = intervals mm @ [(Suc (interval_count mm), a)]"
    by (simp add: start_resume_def Let_def)
  show "start True a m mm =
        Returned (start_resume a
          (mm\<lparr>states := AList.update a
                 \<lparr>assetId = a, marketId = m, currentBid = None, currentAsk = None,
                  position = lit 0, isRunning = True\<rparr> (states mm)\<rparr>))"
    if "map_of (states mm) a = None \<and> isConnected (mm_ws mm)"
    using that by (simp add: start_def Let_def)
  show "orderBookCallbacks (mm_ws (outcome_state (start True a m mm))) =
        orderBookCallbacks (mm_ws mm)"
    if "map_of (states mm) a = None \<and> \<not> isConnected (mm_ws mm)"
    using that by (simp add: start_def connect_def Let_def split: prod.splits Promise.splits if_splits)
  show "intervals (outcome_state (start True a m mm)) = intervals mm"
    if "map_of (states mm) a = None \<and> \<not> isConnected (mm_ws mm)"
    using that by (simp add: start_def Let_def split: prod.splits Promise.splits)
qed

text \<open>
  The engine of the singleton accessor on a fresh shared client starts an asset: the
  call waits for the connection, with the one state entry in place and nothing
  subscribed; a second call returns at once.
\<close>

theorem start_spec_witness:
  "map_of (states (new_MarketMaker
       \<lparr>opt_spread = None, opt_orderSize = None, opt_maxPosition = None,
        opt_minLiquidity = None, opt_refreshInterval = None\<rparr> (getWebSocket True))) ''a'' = None \<and>
   \<not> isConnected (mm_ws (new_MarketMaker
       \<lparr>opt_spread = None, opt_orderSize = None, opt_maxPosition = None,
        opt_minLiquidity = None, opt_refreshInterval = None\<rparr> (getWebSocket True))) \<and>
   distinct (map fst (states (new_MarketMaker
       \<lparr>opt_spread = None, opt_orderSize = None, opt_maxPosition = None,
        opt_minLiquidity = None, opt_refreshInterval = None\<rparr> (getWebSocket True)))) \<and>
   map fst (states (outcome_state (start True ''a'' ''m'' (new_MarketMaker
       \<lparr>opt_spread = None, opt_orderSize = None, opt_maxPosition = None,
        opt_minLiquidity = None, opt_refreshInterval = None\<rparr> (getWebSocket True))))) = [''a''] \<and>
   orderBookCallbacks (mm_ws (outcome_state (start True ''a'' ''m'' (new_MarketMaker
       \<lparr>opt_spread = None, opt_orderSize = None, opt_maxPosition = None,
        opt_minLiquidity = None, opt_refreshInterval = None\<rparr> (getWebSocket True))))) = [] \<and>
   start True ''a'' ''m2'' (outcome_state (start True ''a'' ''m'' (new_MarketMaker
       \<lparr>opt_spread = None, opt_orderSize = None, opt_maxPosition = None,
        opt_minLiquidity = None, opt_refreshInterval = None\<rparr> (getWebSocket True)))) =
     Returned (outcome_state (start True ''a'' ''m'' (new_MarketMaker
       \<lparr>opt_spread = None, opt_orderSize = None, opt_maxPosition = None,
        opt_minLiquidity = None, opt_refreshInterval = None\<rparr> (getWebSocket True))))"
proof -
  let ?mm = "new_MarketMaker
       \<lparr>opt_spread = None, opt_orderSize = None, opt_maxPosition = None,
        opt_minLiquidity = None, opt_refreshInterval = None\<rparr> (getWebSocket True)"
  have h: "map_of (states ?mm) ''a'' = None" "\<not> isConnected (mm_ws ?mm)"
      "distinct (map fst (states ?mm))" "orderBookCallbacks (mm_ws ?mm) = []"
    by (simp_all add: new_MarketMaker_def isConnected_def getWebSocket_fields)
  have k: "map fst (states (outcome_state (start True ''a'' ''m'' ?mm))) = [''a'']"
    by (simp add: start_states) (simp add: new_MarketMaker_def)
  from start_spec [of "''a''" "''m''" ?mm "''m2''"] h k show ?thesis
    by simp
qed

section \<open>The position of a managed asset\<close>

lemma set_update_subset: "set (AList.update k v al) \<subseteq> insert (k, v) (set al)"
  by (induction al) auto

lemma set_delete_subset: "set (AList.delete k al) \<subseteq> set al"
  by (auto simp: AList.delete_eq)

lemma position_update:
  assumes "\<forall>p \<in> set al. position (snd p) = z" and "position v = z"
  shows "\<forall>p \<in> set (AList.update k v al). position (snd p) = z"
  using assms set_update_subset [of k v al] by fastforce

lemma position_delete:
  assumes "\<forall>p \<in> set al. position (snd p) = z"
  shows "\<forall>p \<in> set (AList.delete k al). position (snd p) = z"
  using assms set_delete_subset [of k al] by blast

lemma position_lookup:
  assumes "\<forall>p \<in> set al. position (snd p) = z" and "map_of al a = Some st"
  shows "position st = z"
proof -
  from assms(2) have "(a, st) \<in> set al" by (rule map_of_SomeD)
  with assms(1) have "position (snd (a, st)) = z" by (rule bspec)
  then show ?thesis by simp
qed

lemma position_cancelOrders:
  assumes "\<forall>p \<in> set (states mm). position (snd p) = z"
  shows "\<forall>p \<in> set (states (cancelOrders a mm)). position (snd p) = z"
proof (cases "map_of (states mm) a")
  case None
  with assms show ?thesis by (simp add: cancelOrders_def)
next
  case (Some st)
  with assms have "position st = z" by (rule position_lookup)
  then show ?thesis
    using Some
      position_update [OF assms, of "st\<lparr>currentBid := None, currentAsk := None\<rparr>" a]
      position_update [OF assms, of "st\<lparr>currentBid := None\<rparr>" a]
      position_update [OF assms, of "st\<lparr>currentAsk := None\<rparr>" a]
      position_update [OF assms, of st a]
    by (simp add: cancelOrders_def Let_def)
qed

lemma stop_begin_states:
  "map_of (states mm) a = None \<Longrightarrow> stop_begin a mm = mm"
  "map_of (states mm) a = Some st \<Longrightarrow>
     \<exists>mm'. stop_begin a mm = cancelOrders a mm' \<and>
           states mm' = AList.update a (st\<lparr>isRunning := False\<rparr>) (states mm)"
  by (auto simp: stop_begin_def Let_def split: option.splits)

lemma position_stop_begin:
  assumes "\<forall>p \<in> set (states mm). position (snd p) = z"
  shows "\<forall>p \<in> set (states (stop_begin a mm)). position (snd p) = z"
proof (cases "map_of (states mm) a")
  case None
  with assms show ?thesis by (simp add: stop_begin_states(1))
next
  case (Some st)
  with assms have "position st = z" by (rule position_lookup)
  then have u: "\<forall>p \<in> set (AList.update a (st\<lparr>isRunning := False\<rparr>) (states mm)).
      position (snd p) = z"
    using position_update [OF assms, of "st\<lparr>isRunning := False\<rparr>" a] by simp
  from Some obtain mm' where "stop_begin a mm = cancelOrders a mm'"
    and "states mm' = AList.update a (st\<lparr>isRunning := False\<rparr>) (states mm)"
    using stop_begin_states(2) by blast
  with u show ?thesis
    using position_cancelOrders [of mm' z a] by simp
qed

lemma position_stop_finish:
  assumes "\<forall>p \<in> set (states mm). position (snd p) = z"
  shows "\<forall>p \<in> set (states (stop_finish a mm)). position (snd p) = z"
  using position_delete [OF assms, of a] by (simp add: stop_finish_def)

lemma position_fold:
  assumes "\<And>x mm. \<forall>p \<in> set (states mm). position (snd p) = z \<Longrightarrow>
             \<forall>p \<in> set (states (f x mm)). position (snd p) = z"
    and "\<forall>p \<in> set (states mm). position (snd p) = z"
  shows "\<forall>p \<in> set (states (fold f xs mm)). position (snd p) = z"
  using assms(2)
proof (induction xs arbitrary: mm)
  case Nil
  then show ?case by simp
next
  case (Cons x xs)
  from Cons.prems have "\<forall>p \<in> set (states (f x mm)). position (snd p) = z"
    by (rule assms(1))
  then have "\<forall>p \<in> set (states (fold f xs (f x mm))). position (snd p) = z"
    by (rule Cons.IH)
  then show ?case by simp
qed

lemma position_start:
  assumes "\<forall>p \<in> set (states mm). position (snd p) = Finite False 0"
  shows "\<forall>p \<in> set (states (outcome_state (start c a m mm))). position (snd p) = Finite False 0"
proof (cases c)
  case False
  with assms show ?thesis by (simp add: start_def)
next
  case True
  show ?thesis
  proof (cases "map_of (states mm) a")
    case None
    with True show ?thesis
      using position_update [OF assms,
          of "\<lparr>assetId = a, marketId = m, currentBid = None, currentAsk = None,
               position = lit 0, isRunning = True\<rparr>" a]
      by (simp add: start_states)
  next
    case (Some st)
    with True assms show ?thesis by (simp add: start_states)
  qed
qed

lemma position_apply_op:
  assumes "\<forall>p \<in> set (states mm). position (snd p) = Finite False 0"
  shows "\<forall>p \<in> set (states (apply_op op mm)). position (snd p) = Finite False 0"
proof (cases op)
  case (Start c a m)
  then show ?thesis using position_start [OF assms] by simp
next
  case (StartResume a)
  with assms show ?thesis by simp
next
  case (StopBegin a)
  then show ?thesis using position_stop_begin [OF assms] by simp
next
  case (StopFinish a)
  then show ?thesis using position_stop_finish [OF assms] by simp
next
  case (Stop a)
  then show ?thesis
    using assms position_stop_finish [OF position_stop_begin [OF assms], of a a]
    by (simp add: stop_def split: option.splits)
next
  case StopAll
  have b: "\<forall>p \<in> set (states (fold stop_begin (map fst (states mm)) mm)).
      position (snd p) = Finite False 0"
    by (rule position_fold [where f = stop_begin, OF _ assms]) (rule position_stop_begin)
  have "\<forall>p \<in> set (states (fold stop_finish (map fst (states mm))
      (fold stop_begin (map fst (states mm)) mm))). position (snd p) = Finite False 0"
    by (rule position_fold [where f = stop_finish, OF _ b]) (rule position_stop_finish)
  then show ?thesis using StopAll by (simp add: stopAll_def Let_def)
next
  case (IntervalFired h)
  then show ?thesis
    using assms position_cancelOrders [OF assms]
    by (simp add: refreshOrders_def split: option.splits)
next
  case (Client e)
  with assms show ?thesis by simp
qed

lemma position_run_ops:
  assumes "\<forall>p \<in> set (states mm). position (snd p) = Finite False 0"
  shows "\<forall>p \<in> set (states (run_ops ops mm)). position (snd p) = Finite False 0"
  unfolding run_ops_def
  by (rule position_fold [where f = apply_op, OF _ assms]) (rule position_apply_op)

lemma config_cancelOrders [simp]: "config (cancelOrders a mm) = config mm"
  by (simp add: cancelOrders_def Let_def split: option.splits)

lemma config_stop_begin [simp]: "config (stop_begin a mm) = config mm"
  by (simp add: stop_begin_def Let_def split: option.splits)

lemma config_stop_finish [simp]: "config (stop_finish a mm) = config mm"
  by (simp add: stop_finish_def)

lemma config_fold:
  "(\<And>x mm. config (f x mm) = config mm) \<Longrightarrow> config (fold f xs mm) = config mm"
  by (induction xs arbitrary: mm) simp_all

lemma config_apply_op [simp]: "config (apply_op op mm) = config mm"
  by (cases op)
    (simp_all add: stop_def stopAll_def refreshOrders_def config_fold Let_def
      split: option.splits)

lemma config_run_ops [simp]: "config (run_ops ops mm) = config mm"
  unfolding run_ops_def by (rule config_fold) simp

lemma flt_fneg_zero: "flt (Finite False 0) x \<Longrightarrow> flt (fneg x) (Finite False 0)"
  by (cases x) (auto simp: val_def split: if_splits)

text \<open>
  C9. Whatever the engine, its timers and the shared client do after the engine is
  created, the position of every tracked asset is 0; so with a \<open>maxPosition\<close> above 0
  neither guard of \<open>generateSignals\<close> holds a signal back: for a running asset and a book
  with quotes it returns the BUY and the SELL signal.
\<close>

theorem position_always_zero:
  "(let mm = run_ops ops (new_MarketMaker options w)
    in (\<forall>p \<in> set (states mm). position (snd p) = lit 0) \<and>
       (\<forall>a state orderBook quotes.
          map_of (states mm) a = Some state \<and> isRunning state \<and>
          fgt (parseFloat (maxPosition (config mm))) (lit 0) \<and>
          calculateQuotes ts (config mm) orderBook = Some quotes \<longrightarrow>
          position state = lit 0 \<and>
          flt (position state) (parseFloat (maxPosition (config mm))) \<and>
          fgt (position state) (fneg (parseFloat (maxPosition (config mm)))) \<and>
          map action (generateSignals ts mm a orderBook) = [BUY, SELL]))"
proof -
  let ?mm = "run_ops ops (new_MarketMaker options w)"
  have inv: "\<forall>p \<in> set (states ?mm). position (snd p) = Finite False 0"
    by (rule position_run_ops) (simp add: new_MarketMaker_def)
  have main: "position state = Finite False 0 \<and>
      flt (position state) (parseFloat (maxPosition (config ?mm))) \<and>
      fgt (position state) (fneg (parseFloat (maxPosition (config ?mm)))) \<and>
      map action (generateSignals ts ?mm a orderBook) = [BUY, SELL]"
    if "map_of (states ?mm) a = Some state" "isRunning state"
      "fgt (parseFloat (maxPosition (config ?mm))) (Finite False 0)"
      "calculateQuotes ts (config ?mm) orderBook = Some quotes"
    for a state orderBook quotes
  proof -
    from inv that(1) have p: "position state = Finite False 0"
      by (rule position_lookup)
    from that(3) have lo: "flt (Finite False 0) (parseFloat (maxPosition (config ?mm)))"
      by (simp add: fgt_def)
    then have hi: "fgt (Finite False 0) (fneg (parseFloat (maxPosition (config ?mm))))"
      by (simp add: fgt_def flt_fneg_zero)
    from p lo hi that show ?thesis
      by (simp add: generateSignals_def Let_def)
  qed
  show ?thesis
    unfolding Let_def lit_0 using inv main by blast
qed

lemma new_config:
  "config (new_MarketMaker
     \<lparr>opt_spread = None, opt_orderSize = None, opt_maxPosition = None,
      opt_minLiquidity = None, opt_refreshInterval = None\<rparr> w) = MarketMaker_DEFAULT_CONFIG"
  by (simp add: new_MarketMaker_def override_def MarketMaker_DEFAULT_CONFIG_def)

text \<open>
  After a start, a stop and another start of one asset under the default configuration,
  the asset is tracked, running and at position 0, and the book with bids at 0.40 and
  asks at 0.44 yields both signals.
\<close>

theorem position_always_zero_witness:
  "(\<exists>state.
      map_of (states (run_ops [Start True ''a'' ''m'', Stop ''a'', Start True ''a'' ''m'']
        (new_MarketMaker
           \<lparr>opt_spread = None, opt_orderSize = None, opt_maxPosition = None,
            opt_minLiquidity = None, opt_refreshInterval = None\<rparr> (getWebSocket True)))) ''a'' =
        Some state \<and>
      isRunning state \<and> position state = lit 0) \<and>
   fgt (parseFloat (maxPosition MarketMaker_DEFAULT_CONFIG)) (lit 0) \<and>
   map action (generateSignals (\<lambda>a. [])
      (run_ops [Start True ''a'' ''m'', Stop ''a'', Start True ''a'' ''m'']
        (new_MarketMaker
           \<lparr>opt_spread = None, opt_orderSize = None, opt_maxPosition = None,
            opt_minLiquidity = None, opt_refreshInterval = None\<rparr> (getWebSocket True)))
      ''a''
      \<lparr>ob_market = ''m'', ob_asset_id = ''a'',
       bids = [\<lparr>price = ''0.40'', entry_size = ''25''\<rparr>],
       asks = [\<lparr>price = ''0.44'', entry_size = ''30''\<rparr>], timestamp = ''t''\<rparr>) = [BUY, SELL]"
proof -
  let ?mm = "run_ops [Start True ''a'' ''m'', Stop ''a'', Start True ''a'' ''m'']
        (new_MarketMaker
           \<lparr>opt_spread = None, opt_orderSize = None, opt_maxPosition = None,
            opt_minLiquidity = None, opt_refreshInterval = None\<rparr> (getWebSocket True))"
  let ?st = "\<lparr>assetId = ''a'', marketId = ''m'', currentBid = None, currentAsk = None,
              position = lit 0, isRunning = True\<rparr>"
  let ?ob = "\<lparr>ob_market = ''m'', ob_asset_id = ''a'',
       bids = [\<lparr>price = ''0.40'', entry_size = ''25''\<rparr>],
       asks = [\<lparr>price = ''0.44'', entry_size = ''30''\<rparr>], timestamp = ''t''\<rparr>"
  have s: "map_of (states ?mm) ''a'' = Some ?st"
    by (simp add: run_ops_def start_states stop_def stop_begin_def stop_finish_def
        cancelOrders_def new_MarketMaker_def Let_def split: option.splits)
  have c: "config ?mm = MarketMaker_DEFAULT_CONFIG"
    by (simp add: new_config)
  have m: "fgt (parseFloat (maxPosition MarketMaker_DEFAULT_CONFIG)) (lit 0)"
    by (simp add: default_maxPosition parseFloat_100 fgt_def val_def)
  have q: "calculateQuotes (\<lambda>a. []) (config ?mm) ?ob = Some \<lparr>bid = ''0.3990'', ask = ''0.4410''\<rparr>"
    by (simp only: c quotes_default_040_044)
  have r: "isRunning ?st" by simp
  have m': "fgt (parseFloat (maxPosition (config ?mm))) (lit 0)"
    by (simp only: c) (rule m)
  have "map action (generateSignals (\<lambda>a. []) ?mm ''a'' ?ob) = [BUY, SELL]"
    using position_always_zero [of "[Start True ''a'' ''m'', Stop ''a'', Start True ''a'' ''m'']"
        "\<lparr>opt_spread = None, opt_orderSize = None, opt_maxPosition = None,
          opt_minLiquidity = None, opt_refreshInterval = None\<rparr>" "getWebSocket True" "\<lambda>a. []"]
      s r m' q
    unfolding Let_def by blast
  with s m show ?thesis by simp
qed

end
